theory Spec2Isabelle
  imports Main "HOL-Library.Word"
begin

unbundle bit_operations_syntax

section \<open>JavaScript values\<close>

text \<open>
  The codec layer handles dynamically typed JavaScript values. A number is kept by the only
  facts the code inspects: whether it is an integral value (and which), a non-integral or
  infinite value, or NaN. Strings are byte strings (their UTF-8 code units); every character
  the code compares against is ASCII. An object is its list of own properties in insertion
  order.
\<close>

datatype jsnum = NInt int | NFrac | NNaN

datatype jsval =
    JUndefined
  | JNull
  | JBool bool
  | JNum jsnum
  | JStr string
  | JDate
  | JBuffer "8 word list"
  | JArray "jsval list"
  | JError string
  | JObject "(string \<times> jsval) list"

text \<open>What the code throws: \<open>Error\<close> carries the message of a \<open>throw new Error(...)\<close> of the
  repository, \<open>TypeError\<close> and \<open>RangeError\<close> are raised by the runtime and carry a short note
  of the cause.\<close>

datatype error = Error string | TypeError string | RangeError string | NotModelled string

fun truthy :: "jsval \<Rightarrow> bool" where
  "truthy JUndefined = False"
| "truthy JNull = False"
| "truthy (JBool b) = b"
| "truthy (JNum (NInt n)) = (n \<noteq> 0)"
| "truthy (JNum NFrac) = True"
| "truthy (JNum NNaN) = False"
| "truthy (JStr s) = (s \<noteq> [])"
| "truthy _ = True"

text \<open>\<open>a || b\<close>\<close>

definition js_or :: "jsval \<Rightarrow> jsval \<Rightarrow> jsval" where
  "js_or a b = (if truthy a then a else b)"

text \<open>Own properties: \<open>Object.prototype.hasOwnProperty.call(v, k)\<close> and \<open>v[k]\<close> for the keys the
  code reads (none of them is a member of \<open>Object.prototype\<close>). Later entries of the same key
  override earlier ones, as assignment does.\<close>

fun own_props :: "jsval \<Rightarrow> (string \<times> jsval) list" where
  "own_props (JObject ps) = ps"
| "own_props _ = []"

definition has :: "jsval \<Rightarrow> string \<Rightarrow> bool" where
  "has v k = (k \<in> set (map fst (own_props v)))"

definition get_prop :: "jsval \<Rightarrow> string \<Rightarrow> jsval" where
  "get_prop v k = (case map_of (rev (own_props v)) k of Some x \<Rightarrow> x | None \<Rightarrow> JUndefined)"

section \<open>lib/utils.js: the type descriptor translator\<close>

definition primitiveMap :: "string \<Rightarrow> string option" where
  "primitiveMap c =
     (if c = ''void'' then Some ''V''
      else if c = ''boolean'' then Some ''Z''
      else if c = ''byte'' then Some ''B''
      else if c = ''char'' then Some ''C''
      else if c = ''double'' then Some ''D''
      else if c = ''float'' then Some ''F''
      else if c = ''int'' then Some ''I''
      else if c = ''long'' then Some ''J''
      else if c = ''short'' then Some ''S''
      else None)"

text \<open>\<open>primitiveMap\<close> is an object literal, so \<open>primitiveMap[$class]\<close> also finds the members
  it inherits from \<open>Object.prototype\<close>; they are truthy and are appended by string
  concatenation. The text is what Node prints for them.\<close>

definition nativeFunction :: "string \<Rightarrow> string" where
  "nativeFunction n = ''function '' @ n @ ''() { [native code] }''"

definition inheritedMember :: "string \<Rightarrow> string option" where
  "inheritedMember c =
     (if c = ''constructor'' then Some (nativeFunction ''Object'')
      else if c = ''__proto__'' then Some ''[object Object]''
      else if c \<in> set [''toString'', ''toLocaleString'', ''valueOf'', ''hasOwnProperty'',
                        ''isPrototypeOf'', ''propertyIsEnumerable'', ''__defineGetter__'',
                        ''__defineSetter__'', ''__lookupGetter__'', ''__lookupSetter__'']
      then Some (nativeFunction c)
      else None)"

definition isArray :: "string \<Rightarrow> bool" where
  "isArray c = (case c of [] \<Rightarrow> False | x # _ \<Rightarrow> x = CHR ''['')"

definition getComponentType :: "string \<Rightarrow> string" where
  "getComponentType c = (if isArray c then tl c else c)"

text \<open>\<open>while (isArray($class)) { ret += '['; $class = getComponentType($class); }\<close>, by
  recursion on the class name; \<open>stripArray_loop\<close> below states it with the two helpers.\<close>

fun stripArray :: "string \<Rightarrow> string \<Rightarrow> string \<times> string" where
  "stripArray ret [] = (ret, [])"
| "stripArray ret (x # xs) =
     (if x = CHR ''['' then stripArray (ret @ ''['') xs else (ret, x # xs))"

lemma stripArray_loop:
  "stripArray ret c =
     (if isArray c then stripArray (ret @ ''['') (getComponentType c) else (ret, c))"
  by (cases c) (simp_all add: isArray_def getComponentType_def)

text \<open>\<open>s.replace(/\\./g, '/')\<close> and \<open>s.replace(/\\//g, '.')\<close>\<close>

definition dots2slashes :: "string \<Rightarrow> string" where
  "dots2slashes s = map (\<lambda>c. if c = CHR ''.'' then CHR ''/'' else c) s"

definition slashes2dots :: "string \<Rightarrow> string" where
  "slashes2dots s = map (\<lambda>c. if c = CHR ''/'' then CHR ''.'' else c) s"

text \<open>\<open>is.long\<close> and \<open>is.int\<close> of the is-type-of package: an integral number outside,
  respectively any integral number (the code asks \<open>is.long\<close> first).\<close>

definition is_long :: "jsnum \<Rightarrow> bool" where
  "is_long n = (case n of NInt i \<Rightarrow> i \<ge> 2 ^ 31 \<or> i < - (2 ^ 31) | _ \<Rightarrow> False)"

definition is_int :: "jsnum \<Rightarrow> bool" where
  "is_int n = (case n of NInt i \<Rightarrow> True | _ \<Rightarrow> False)"

definition taggedClassDesc :: "jsval \<Rightarrow> error + string" where
  "taggedClassDesc val =
     (case js_or (get_prop val ''$abstractClass'') (get_prop val ''$class'') of
        JStr c \<Rightarrow>
          (let (ret, cls) = stripArray [] c in
           case primitiveMap cls of
             Some p \<Rightarrow> Inr (ret @ p)
           | None \<Rightarrow>
              (case inheritedMember cls of
                 Some m \<Rightarrow> Inr (ret @ m)
               | None \<Rightarrow> Inr (ret @ ''L'' @ dots2slashes cls @ '';'')))
      | _ \<Rightarrow> Inl (TypeError ''$class.startsWith is not a function''))"

fun getJavaClassDesc :: "jsval \<Rightarrow> error + string" where
  "getJavaClassDesc JUndefined = Inr ''Ljava/lang/Object;''"
| "getJavaClassDesc JNull = Inr ''Ljava/lang/Object;''"
| "getJavaClassDesc (JBool b) = Inr ''Z''"
| "getJavaClassDesc (JStr s) = Inr ''Ljava/lang/String;''"
| "getJavaClassDesc (JNum n) =
     (if is_long n then Inr ''J'' else if is_int n then Inr ''I'' else Inr ''D'')"
| "getJavaClassDesc JDate = Inr ''Ljava/util/Date;''"
| "getJavaClassDesc (JBuffer b) = Inr ''[B''"
| "getJavaClassDesc (JArray xs) = Inr ''Ljava/util/ArrayList;''"
| "getJavaClassDesc (JError m) = Inr ''Ljava/lang/Exception;''"
| "getJavaClassDesc (JObject ps) =
     (if \<not> has (JObject ps) ''$class'' then Inr ''Ljava/util/HashMap;''
      else taggedClassDesc (JObject ps))"

text \<open>\<open>args.map(arg => getJavaClassDesc(arg)).join('')\<close>: the first argument that throws
  ends the call.\<close>

fun getJavaArgsDesc :: "jsval list \<Rightarrow> error + string" where
  "getJavaArgsDesc [] = Inr []"
| "getJavaArgsDesc (a # as) =
     (case getJavaClassDesc a of
        Inl e \<Rightarrow> Inl e
      | Inr d \<Rightarrow> (case getJavaArgsDesc as of Inl e \<Rightarrow> Inl e | Inr ds \<Rightarrow> Inr (d @ ds)))"

text \<open>The class-name loop of the \<open>'L'\<close> case,
  \<open>while (i < len && desc[++i] !== ';') clazz += desc[i];\<close>, on the characters after the
  current index. At the end of the string \<open>desc[++i]\<close> is \<open>undefined\<close>, which differs from
  \<open>';'\<close> and is appended as the text \<open>undefined\<close> before \<open>i < len\<close> fails. The result is the
  class name and the characters after the closing \<open>';'\<close>.\<close>

fun readClass :: "string \<Rightarrow> string \<Rightarrow> string \<times> string" where
  "readClass clazz [] = (clazz @ ''undefined'', [])"
| "readClass clazz (x # xs) =
     (if x = CHR '';'' then (clazz, xs) else readClass (clazz @ [x]) xs)"

definition unknownClassType :: "string \<Rightarrow> error" where
  "unknownClassType t = Error (''[double-remoting] unknown class type => '' @ t)"

text \<open>The \<open>switch (type)\<close> of one loop round: the Java type and the characters left.\<close>

definition javaTypeOf :: "char \<Rightarrow> string \<Rightarrow> error + (string \<times> string)" where
  "javaTypeOf t rest =
     (if t = CHR ''V'' then Inr (''void'', rest)
      else if t = CHR ''Z'' then Inr (''boolean'', rest)
      else if t = CHR ''B'' then Inr (''byte'', rest)
      else if t = CHR ''C'' then Inr (''char'', rest)
      else if t = CHR ''D'' then Inr (''double'', rest)
      else if t = CHR ''F'' then Inr (''float'', rest)
      else if t = CHR ''I'' then Inr (''int'', rest)
      else if t = CHR ''J'' then Inr (''long'', rest)
      else if t = CHR ''S'' then Inr (''short'', rest)
      else if t = CHR ''L'' then
        (let (clazz, rest') = readClass [] rest in Inr (slashes2dots clazz, rest'))
      else Inl (unknownClassType [t]))"

text \<open>One round of the \<open>for\<close> loop on a non-empty rest: a single \<open>'['\<close> is taken as the
  prefix and the type character is the one after it (\<open>desc[++i]\<close>, \<open>undefined\<close> at the end
  of the string).\<close>

definition classEntry :: "char \<Rightarrow> string \<Rightarrow> error + (string \<times> string)" where
  "classEntry c cs =
     (if c = CHR ''['' then
        (case cs of
           [] \<Rightarrow> Inl (unknownClassType ''undefined'')
         | t # rest \<Rightarrow>
            (case javaTypeOf t rest of
               Inl e \<Rightarrow> Inl e
             | Inr (javaType, rest') \<Rightarrow> Inr (''['' @ javaType, rest')))
      else javaTypeOf c cs)"

lemma readClass_length: "length (snd (readClass clazz xs)) \<le> length xs"
  by (induction xs arbitrary: clazz) (auto simp: le_Suc_eq)

lemma javaTypeOf_length: "javaTypeOf t rest = Inr (j, rest') \<Longrightarrow> length rest' \<le> length rest"
  using readClass_length [of "[]" rest]
  by (auto simp: javaTypeOf_def split: if_splits prod.splits)

lemma classEntry_length: "classEntry c cs = Inr (j, rest') \<Longrightarrow> length rest' \<le> length cs"
  by (auto simp: classEntry_def split: if_splits list.splits sum.splits
           dest!: javaTypeOf_length)

function desc2classLoop :: "string \<Rightarrow> string list \<Rightarrow> error + string list" where
  "desc2classLoop [] arr = Inr arr"
| "desc2classLoop (c # cs) arr =
     (case classEntry c cs of
        Inl e \<Rightarrow> Inl e
      | Inr (entry, rest) \<Rightarrow> desc2classLoop rest (arr @ [entry]))"
  by pat_completeness auto
termination
  by (relation "measure (\<lambda>(s, arr). length s)") (auto dest!: classEntry_length)

text \<open>\<open>if (!desc) return [];\<close> for a string is the empty-string case of the loop.\<close>

definition desc2classArray :: "string \<Rightarrow> error + string list" where
  "desc2classArray desc = desc2classLoop desc []"

text \<open>The arguments on which the two translators are compared below: every value without a
  \<open>$class\<close> entry, and a tagged object whose class is a string with at most one leading
  \<open>'['\<close>, followed by a name that has no \<open>';'\<close> and is no member of \<open>Object.prototype\<close>.\<close>

definition plainlyTagged :: "jsval \<Rightarrow> bool" where
  "plainlyTagged v =
     (case v of
        JObject ps \<Rightarrow>
          if \<not> has v ''$class'' then True
          else (case js_or (get_prop v ''$abstractClass'') (get_prop v ''$class'') of
                  JStr c \<Rightarrow>
                    (let (ret, cls) = stripArray [] c
                     in length ret \<le> 1 \<and> CHR '';'' \<notin> set cls \<and> inheritedMember cls = None)
                | _ \<Rightarrow> False)
      | _ \<Rightarrow> True)"

text \<open>A descriptor that one round of the loop consumes as a whole, adding the entry \<open>e\<close>.\<close>

definition oneEntry :: "string \<Rightarrow> string \<Rightarrow> bool" where
  "oneEntry d e = (\<forall>rest arr. desc2classLoop (d @ rest) arr = desc2classLoop rest (arr @ [e]))"

section \<open>Byte buffers\<close>

type_synonym bytes = "8 word list"

text \<open>Sequencing of calls that may throw.\<close>

definition andThen :: "error + 'a \<Rightarrow> ('a \<Rightarrow> error + 'b) \<Rightarrow> error + 'b" where
  "andThen r f = (case r of Inl e \<Rightarrow> Inl e | Inr x \<Rightarrow> f x)"

text \<open>\<open>Buffer.writeInt32BE\<close> and \<open>Buffer.readInt32BE\<close> of Node: four bytes, most significant
  first; a value outside the signed 32-bit range or a read past the end raises RangeError.\<close>

definition int32BE :: "32 word \<Rightarrow> bytes" where
  "int32BE w = [ucast (drop_bit 24 w), ucast (drop_bit 16 w), ucast (drop_bit 8 w), ucast w]"

definition write_at :: "nat \<Rightarrow> bytes \<Rightarrow> bytes \<Rightarrow> bytes" where
  "write_at i src buf =
     take i (buf @ replicate (i - length buf) 0) @ src @ drop (i + length src) buf"

definition writeInt32BE :: "int \<Rightarrow> nat \<Rightarrow> bytes \<Rightarrow> error + bytes" where
  "writeInt32BE v off buf =
     (if v < - (2 ^ 31) \<or> 2 ^ 31 \<le> v then Inl (RangeError ''value is out of range'')
      else if length buf < off + 4 then Inl (RangeError ''offset is out of range'')
      else Inr (write_at off (int32BE (word_of_int v)) buf))"

definition be32 :: "8 word \<Rightarrow> 8 word \<Rightarrow> 8 word \<Rightarrow> 8 word \<Rightarrow> 32 word" where
  "be32 a b c d =
     push_bit 24 (ucast a) OR push_bit 16 (ucast b) OR push_bit 8 (ucast c) OR ucast d"

definition readInt32BE :: "bytes \<Rightarrow> nat \<Rightarrow> error + 32 word" where
  "readInt32BE buf off =
     (if length buf < off + 4 then Inl (RangeError ''offset is out of range'')
      else Inr (be32 (buf ! off) (buf ! (off + 1)) (buf ! (off + 2)) (buf ! (off + 3))))"

text \<open>The \<open>ByteBuffer\<close> of the byte package, big-endian: the bytes written so far
  (\<open>_bytes\<close>, whose spare capacity is never observed) and the cursor \<open>_offset\<close>. The buffer
  grows as needed.\<close>

record ByteBuffer =
  bb_bytes :: bytes
  bb_offset :: nat

definition ByteBuffer_new :: ByteBuffer where
  "ByteBuffer_new = \<lparr>bb_bytes = [], bb_offset = 0\<rparr>"

definition put :: "bytes \<Rightarrow> ByteBuffer \<Rightarrow> ByteBuffer" where
  "put src b = \<lparr>bb_bytes = write_at (bb_offset b) src (bb_bytes b),
               bb_offset = bb_offset b + length src\<rparr>"

text \<open>\<open>putLong\<close>: the signed 64-bit value as two 32-bit halves, high word first.\<close>

definition putLong :: "64 word \<Rightarrow> ByteBuffer \<Rightarrow> ByteBuffer" where
  "putLong v b = put (int32BE (ucast (drop_bit 32 v)) @ int32BE (ucast v)) b"

definition skip :: "nat \<Rightarrow> ByteBuffer \<Rightarrow> ByteBuffer" where
  "skip n b = \<lparr>bb_bytes = write_at (bb_offset b + n) [] (bb_bytes b),
              bb_offset = bb_offset b + n\<rparr>"

definition position :: "ByteBuffer \<Rightarrow> nat" where
  "position b = bb_offset b"

definition string_bytes :: "string \<Rightarrow> bytes" where
  "string_bytes s = map (\<lambda>c. of_nat (of_char c)) s"

definition putRawString :: "string \<Rightarrow> ByteBuffer \<Rightarrow> ByteBuffer" where
  "putRawString s b = put (string_bytes s) b"

text \<open>\<open>b.get(0, n)\<close> and \<open>b._bytes.slice(0, n)\<close>\<close>

definition bb_get :: "nat \<Rightarrow> ByteBuffer \<Rightarrow> bytes" where
  "bb_get n b = take n (bb_bytes b)"

section \<open>lib/protocol/request.js\<close>

text \<open>The constants of \<open>lib/const\<close> that the assembler reads are not part of the sources and
  are parameters of the model.\<close>

record Constants =
  DEFAULT_REMOTING_SERIALIZATION :: string
  DUBBO_VERSION_KEY :: string
  PATH_KEY :: string
  VERSION_KEY :: string

definition DUBBO_VERSION :: string where "DUBBO_VERSION = ''2.5.3''"
definition HEADER_LENGTH :: nat where "HEADER_LENGTH = 16"
definition MAGIC_HIGH :: "8 word" where "MAGIC_HIGH = 0xda"
definition MAGIC_LOW :: "8 word" where "MAGIC_LOW = 0xbb"
definition FLAG_EVENT :: nat where "FLAG_EVENT = 0x20"
definition FLAG_TWOWAY :: nat where "FLAG_TWOWAY = 0x40"
definition FLAG_REQUEST :: nat where "FLAG_REQUEST = 0x80"
definition SERIALIZATION_MASK :: nat where "SERIALIZATION_MASK = 0x1f"

text \<open>The options object. \<open>Request.decode\<close> hands it to the driver as it is, and the drivers
  read \<open>proto\<close> and \<open>channel\<close> from it; \<open>Request.encode\<close> hands it to the writers, which read
  the same two fields from its member \<open>options\<close>. \<open>'p\<close> is the resolved proto registry.\<close>

record 'p codec_options =
  proto :: "'p option"
  channel :: jsval

record 'p call_options = "'p codec_options" +
  codecType :: "string option"
  classMap :: jsval
  options :: "'p codec_options option"

text \<open>An \<open>Invocation\<close> (its class is not part of the sources): method name, arguments and the
  attachment object.\<close>

record Invocation =
  methodName :: string
  args :: "jsval list"
  attachments :: "(string \<times> jsval) list"

datatype payload = PInvocation Invocation | PValue jsval

record Request =
  id_req :: "64 word"
  version :: string
  isTwoWay :: bool
  isEvent :: bool
  isBroken :: bool
  data :: payload

text \<open>An encode session of a serialization driver, as \<open>Request.encode\<close> uses it: the session
  state \<open>'o\<close> returned by \<open>serialize()\<close>, its \<open>bytes\<close> member (a \<open>ByteBuffer\<close> the assembler
  writes the header into), \<open>contentTypeId\<close>, \<open>len\<close>, \<open>get()\<close>, \<open>writeUTF\<close> and
  \<open>writeObject\<close>. A type tag is a string when one is given.\<close>

record ('o, 'p) output_driver =
  serialize :: 'o
  bytes_of :: "'o \<Rightarrow> ByteBuffer"
  bytes_update :: "(ByteBuffer \<Rightarrow> ByteBuffer) \<Rightarrow> 'o \<Rightarrow> 'o"
  contentTypeId :: nat
  len :: "'o \<Rightarrow> int"
  get :: "'o \<Rightarrow> bytes"
  writeUTF :: "jsval \<Rightarrow> 'p call_options \<Rightarrow> 'o \<Rightarrow> error + 'o"
  writeObject :: "jsval \<Rightarrow> jsval \<Rightarrow> string option \<Rightarrow> 'p call_options \<Rightarrow> 'o \<Rightarrow> error + 'o"

text \<open>Lines 72 to 78 of \<open>encode\<close>: the flag.\<close>

definition flagOf :: "nat \<Rightarrow> Request \<Rightarrow> nat" where
  "flagOf cid req =
     (let flag0 = FLAG_REQUEST OR cid;
          flag1 = (if isTwoWay req then flag0 OR FLAG_TWOWAY else flag0)
      in if isEvent req then flag1 OR FLAG_EVENT else flag1)"

text \<open>Lines 70 to 82: magic, flag byte, status, packet id, and four bytes left for the body
  length. \<open>put\<close> stores a number as one byte.\<close>

definition encodeHeader :: "nat \<Rightarrow> Request \<Rightarrow> ByteBuffer \<Rightarrow> ByteBuffer" where
  "encodeHeader cid req b0 =
     (let b1 = put [MAGIC_HIGH] b0;
          b2 = put [MAGIC_LOW] b1;
          b3 = put [of_nat (flagOf cid req)] b2;
          b4 = put [0] b3;
          b5 = putLong (id_req req) b4
      in skip 4 b5)"

text \<open>\<open>inv.args[i]\<close>\<close>

definition js_nth :: "jsval list \<Rightarrow> nat \<Rightarrow> jsval" where
  "js_nth xs i = (if i < length xs then xs ! i else JUndefined)"

text \<open>\<open>for (let i = 0; i < types.length; i++) output.writeObject(inv.args[i], classMap,
  types[i], options)\<close>, from index \<open>i\<close> on the types left.\<close>

fun writeArgs ::
  "('o, 'p) output_driver \<Rightarrow> jsval \<Rightarrow> 'p call_options \<Rightarrow> jsval list \<Rightarrow> nat \<Rightarrow> string list
     \<Rightarrow> 'o \<Rightarrow> error + 'o" where
  "writeArgs drv cm opts as i [] out = Inr out"
| "writeArgs drv cm opts as i (t # ts) out =
     andThen (writeObject drv (js_nth as i) cm (Some t) opts out)
       (writeArgs drv cm opts as (Suc i) ts)"

text \<open>Lines 85 to 106: the body.\<close>

definition encodeBody ::
  "Constants \<Rightarrow> ('o, 'p) output_driver \<Rightarrow> Request \<Rightarrow> 'p call_options \<Rightarrow> 'o \<Rightarrow> error + 'o" where
  "encodeBody C drv req opts out =
     (case data req of
        PInvocation invo \<Rightarrow>
          andThen (writeUTF drv (js_or (get_prop (JObject (attachments invo)) (DUBBO_VERSION_KEY C))
                                      (JStr DUBBO_VERSION)) opts out) (\<lambda>out.
          andThen (writeUTF drv (get_prop (JObject (attachments invo)) (PATH_KEY C)) opts out) (\<lambda>out.
          andThen (writeUTF drv (js_or (get_prop (JObject (attachments invo)) (VERSION_KEY C))
                                      (JStr ''0.0.0'')) opts out) (\<lambda>out.
          andThen (writeUTF drv (JStr (methodName invo)) opts out) (\<lambda>out.
          andThen (getJavaArgsDesc (args invo)) (\<lambda>desc.
          andThen (writeUTF drv (JStr desc) opts out) (\<lambda>out.
          andThen (desc2classArray desc) (\<lambda>types.
          andThen (writeArgs drv (classMap opts) opts (args invo) 0 types out) (\<lambda>out.
          writeObject drv (JObject (attachments invo)) (classMap opts) (Some ''HashMap'') opts out))))))))
      | PValue v \<Rightarrow>
          if isEvent req then writeUTF drv (JStr ''H'') opts out
          else writeObject drv v (classMap opts) (Some ''AnyVal'') opts out)"

text \<open>\<open>name || fallback\<close> for a name that is a string or \<open>undefined\<close>, as in
  \<open>codecType || Constants.DEFAULT_REMOTING_SERIALIZATION\<close>\<close>

definition orDefault :: "string option \<Rightarrow> string \<Rightarrow> string" where
  "orDefault name fallback =
     (case name of None \<Rightarrow> fallback | Some n \<Rightarrow> if n = [] then fallback else n)"

text \<open>\<open>encode(options)\<close>. \<open>byName\<close> is \<open>getSerializationByName\<close>; calling \<open>serialize\<close> on the
  \<open>undefined\<close> it returns for an unknown name is a TypeError.\<close>

definition Request_encode ::
  "Constants \<Rightarrow> (string \<Rightarrow> ('o, 'p) output_driver option) \<Rightarrow> Request \<Rightarrow> 'p call_options
     \<Rightarrow> error + bytes" where
  "Request_encode C byName req opts =
     (case byName (orDefault (codecType opts) (DEFAULT_REMOTING_SERIALIZATION C)) of
        None \<Rightarrow> Inl (TypeError ''Cannot read properties of undefined (reading serialize)'')
      | Some drv \<Rightarrow>
          (let out0 = serialize drv;
               out1 = bytes_update drv (encodeHeader (contentTypeId drv) req) out0
           in andThen (encodeBody C drv req opts out1) (\<lambda>out.
                let bodyLen =
                      (if codecType opts \<noteq> Some (DEFAULT_REMOTING_SERIALIZATION C) then len drv out
                       else int (position (bytes_of drv out)) - int HEADER_LENGTH)
                in andThen (writeInt32BE bodyLen 12 (bb_bytes (bytes_of drv out))) (\<lambda>patched.
                     Inr (get drv (bytes_update drv (\<lambda>b. b\<lparr>bb_bytes := patched\<rparr>) out))))))"

subsection \<open>Decoding\<close>

text \<open>\<open>new Long(low, high)\<close> of the long package: the two's-complement 64-bit value with
  the given 32-bit halves.\<close>

definition Long :: "32 word \<Rightarrow> 32 word \<Rightarrow> 64 word" where
  "Long low high = word_cat high low"

text \<open>A decode session of a serialization driver, as \<open>Request.decode\<close> uses it: the session
  state \<open>'i\<close> returned by \<open>deserialize(buf)\<close>, \<open>skip\<close>, \<open>readObject\<close> and \<open>readUTF\<close>.\<close>

record ('i, 'p) input_driver =
  deserialize :: "bytes \<Rightarrow> 'i"
  skip_in :: "nat \<Rightarrow> 'i \<Rightarrow> error + 'i"
  readObject :: "'p call_options \<Rightarrow> string option \<Rightarrow> 'i \<Rightarrow> error + jsval \<times> 'i"
  readUTF :: "'p call_options \<Rightarrow> 'i \<Rightarrow> error + jsval \<times> 'i"

record Packet_options =
  protocolType :: string
  codecType_used :: string
  classMap_used :: jsval

record 'n Packet =
  packetId :: 'n
  packetType :: string
  packetData :: jsval
  packetOptions :: Packet_options
  meta :: jsval

text \<open>A non-negative integer in decimal, as string conversion prints it.\<close>

fun decimal :: "nat \<Rightarrow> string" where
  "decimal n =
     (if n < 10 then [char_of (48 + n)] else decimal (n div 10) @ [char_of (48 + n mod 10)])"

text \<open>\<open>desc2classArray\<close> on a value read from the wire. A falsy value gives the empty list, a
  string is scanned, and a value with no \<open>length\<close> (or an empty buffer or array) passes the
  loop at once. The first byte of a non-empty buffer is a number, which no \<open>case\<close> matches.
  Other array-like values are outside the model.\<close>

definition desc2classArray_val :: "jsval \<Rightarrow> error + string list" where
  "desc2classArray_val desc =
     (if \<not> truthy desc then Inr []
      else case desc of
        JStr s \<Rightarrow> desc2classArray s
      | JBuffer b \<Rightarrow>
          (case b of [] \<Rightarrow> Inr [] | x # _ \<Rightarrow> Inl (unknownClassType (decimal (unat x))))
      | JArray xs \<Rightarrow>
          (case xs of
             [] \<Rightarrow> Inr []
           | _ \<Rightarrow> Inl (NotModelled ''descriptor given as an array''))
      | JObject ps \<Rightarrow>
          if has (JObject ps) ''length''
          then Inl (NotModelled ''descriptor given as an array-like object'')
          else Inr []
      | _ \<Rightarrow> Inr [])"

text \<open>\<open>for (let i = 0; i < argLen; ++i) args.push(input.readObject(options,
  methodArgSigs[i]))\<close>\<close>

fun readArgs ::
  "('i, 'p) input_driver \<Rightarrow> 'p call_options \<Rightarrow> string list \<Rightarrow> 'i \<Rightarrow> error + jsval list \<times> 'i"
  where
  "readArgs drv opts [] inp = Inr ([], inp)"
| "readArgs drv opts (t # ts) inp =
     andThen (readObject drv opts (Some t) inp) (\<lambda>(a, inp1).
     andThen (readArgs drv opts ts inp1) (\<lambda>(as, inp2). Inr (a # as, inp2)))"

text \<open>Property assignment \<open>o[k] = v\<close> and \<open>Object.assign(target, source)\<close>: the own enumerable
  properties of the source are assigned in order; a source that is not an object has none,
  except that a string or an array has its indices.\<close>

definition set_prop :: "(string \<times> jsval) list \<Rightarrow> string \<Rightarrow> jsval \<Rightarrow> (string \<times> jsval) list" where
  "set_prop ps k v =
     (if k \<in> set (map fst ps) then map (\<lambda>(k', v'). if k' = k then (k', v) else (k', v')) ps
      else ps @ [(k, v)])"

definition indexed :: "jsval list \<Rightarrow> (string \<times> jsval) list" where
  "indexed xs = zip (map decimal [0..<length xs]) xs"

fun enumerable :: "jsval \<Rightarrow> (string \<times> jsval) list" where
  "enumerable (JObject ps) = ps"
| "enumerable (JStr s) = indexed (map (\<lambda>c. JStr [c]) s)"
| "enumerable (JArray xs) = indexed xs"
| "enumerable (JBuffer b) = indexed (map (\<lambda>x. JNum (NInt (uint x))) b)"
| "enumerable _ = []"

definition assign :: "(string \<times> jsval) list \<Rightarrow> jsval \<Rightarrow> (string \<times> jsval) list" where
  "assign target source = fold (\<lambda>(k, v) t. set_prop t k v) (enumerable source) target"

text \<open>String concatenation with \<open>+\<close>: a string operand is taken as it is, any other value
  through the language's string conversion, a parameter of the model.\<close>

definition str :: "(jsval \<Rightarrow> string) \<Rightarrow> jsval \<Rightarrow> string" where
  "str ToString v = (case v of JStr s \<Rightarrow> s | _ \<Rightarrow> ToString v)"

text \<open>\<open>version ? attachments.path + ':' + version : attachments.path\<close>\<close>

definition serverSignatureOf :: "(jsval \<Rightarrow> string) \<Rightarrow> jsval \<Rightarrow> jsval \<Rightarrow> jsval" where
  "serverSignatureOf ToString path ver =
     (if truthy ver then JStr (str ToString path @ '':'' @ str ToString ver) else path)"

text \<open>Lines 140 to 163: the body of an invocation, after its first field.\<close>

definition decodeInvocation ::
  "(jsval \<Rightarrow> string) \<Rightarrow> Constants \<Rightarrow> ('i, 'p) input_driver \<Rightarrow> 'p call_options \<Rightarrow> jsval \<Rightarrow> 'i
     \<Rightarrow> error + jsval" where
  "decodeInvocation ToString C drv opts field inp0 =
     andThen (readUTF drv opts inp0) (\<lambda>(path, inp1).
     andThen (readUTF drv opts inp1) (\<lambda>(ver, inp2).
     andThen (readUTF drv opts inp2) (\<lambda>(mname, inp3).
     andThen (readUTF drv opts inp3) (\<lambda>(desc, inp4).
     andThen (desc2classArray_val desc) (\<lambda>methodArgSigs.
     andThen (readArgs drv opts methodArgSigs inp4) (\<lambda>(as, inp5).
     andThen (readObject drv opts (Some ''HashMap'') inp5) (\<lambda>(m, inp6).
       let atts = assign (set_prop (set_prop [] (DUBBO_VERSION_KEY C) field) (PATH_KEY C) path) m;
           serverSignature = serverSignatureOf ToString (get_prop (JObject atts) ''path'') ver
       in Inr (JObject [(''methodName'', mname),
                        (''serverSignature'', serverSignature),
                        (''args'', JArray as),
                        (''methodArgSigs'', JArray (map JStr methodArgSigs)),
                        (''requestProps'', JObject atts)]))))))))"

text \<open>\<open>new Long(buf.readInt32BE(8), buf.readInt32BE(4))\<close>: low word first, then high.\<close>

definition readLong :: "bytes \<Rightarrow> error + 64 word" where
  "readLong buf =
     andThen (readInt32BE buf 8) (\<lambda>low.
     andThen (readInt32BE buf 4) (\<lambda>high. Inr (Long low high)))"

text \<open>\<open>Request.decode(buf, options)\<close>. \<open>byId\<close> is \<open>getSerializationById\<close> and \<open>handleLong\<close> the
  function of hessian.js that turns the \<open>Long\<close> into the packet id handed to the caller.\<close>

definition Request_decode ::
  "(64 word \<Rightarrow> 'n) \<Rightarrow> (jsval \<Rightarrow> string) \<Rightarrow> Constants \<Rightarrow> (nat \<Rightarrow> ('i, 'p) input_driver option)
     \<Rightarrow> bytes \<Rightarrow> 'p call_options \<Rightarrow> error + 'n Packet" where
  "Request_decode handleLong ToString C byId buf opts0 =
     andThen (readLong buf) (\<lambda>long.
       let pid = handleLong long;
           flag = unat (buf ! 2);
           sType = flag AND SERIALIZATION_MASK
       in case byId sType of
            None \<Rightarrow> Inl (TypeError ''Cannot read properties of undefined (reading deserialize)'')
          | Some drv \<Rightarrow>
             (let inp0 = deserialize drv buf;
                  opts = (if sType = 21 then opts0\<lparr>codecType := Some ''protobuf''\<rparr> else opts0);
                  result = (\<lambda>ptype d.
                     \<lparr>packetId = pid, packetType = ptype, packetData = d,
                      packetOptions =
                        \<lparr>protocolType = ''dubbo'',
                         codecType_used = orDefault (codecType opts) ''hessian2'',
                         classMap_used = classMap opts\<rparr>,
                      meta = JNull\<rparr>)
              in andThen (skip_in drv 16 inp0) (\<lambda>inp1.
                   if flag AND FLAG_EVENT \<noteq> 0 then
                     andThen (readObject drv opts None inp1) (\<lambda>(d, inp2).
                       Inr (result ''heartbeat'' d))
                   else
                     andThen (readObject drv opts (Some ''AnyVal'') inp1) (\<lambda>(field, inp2).
                       case field of
                         JStr s \<Rightarrow>
                           andThen (decodeInvocation ToString C drv opts field inp2) (\<lambda>d.
                             Inr (result ''request'' d))
                       | _ \<Rightarrow> Inr (result ''request'' field)))))"

section \<open>lib/serialize/index.js: the registry\<close>

text \<open>The ids of \<open>lib/serialize/const\<close> and the driver modules are parameters. An object
  literal keeps the last value written under a key.\<close>

record SerializationIds =
  HESSIAN2_SERIALIZATION_ID :: nat
  PROTOSTUFF_SERIALIZATION_ID :: nat
  PROTOBUF_JSON_SERIALIZATION_ID :: nat
  PROTOBUF_SERIALIZATION_ID :: nat

record 'd Modules =
  hessian :: 'd
  protobuf_json :: 'd
  protobuf :: 'd

definition lookup :: "('k \<times> 'v) list \<Rightarrow> 'k \<Rightarrow> 'v option" where
  "lookup literal k = map_of (rev literal) k"

definition idToSerializations :: "SerializationIds \<Rightarrow> 'd Modules \<Rightarrow> (nat \<times> 'd) list" where
  "idToSerializations ids m =
     [(HESSIAN2_SERIALIZATION_ID ids, hessian m),
      (PROTOBUF_JSON_SERIALIZATION_ID ids, protobuf_json m),
      (PROTOBUF_SERIALIZATION_ID ids, protobuf m)]"

definition nameToSerializations :: "'d Modules \<Rightarrow> (string \<times> 'd) list" where
  "nameToSerializations m =
     [(''hessian2'', hessian m), (''protobuf-json'', protobuf_json m), (''protobuf'', protobuf m)]"

definition getSerializationById :: "SerializationIds \<Rightarrow> 'd Modules \<Rightarrow> nat \<Rightarrow> 'd option" where
  "getSerializationById ids m i = lookup (idToSerializations ids m) i"

definition getSerializationByName :: "'d Modules \<Rightarrow> string \<Rightarrow> 'd option" where
  "getSerializationByName m name = lookup (nameToSerializations m) name"

definition getSerializationNameById :: "SerializationIds \<Rightarrow> nat \<Rightarrow> string" where
  "getSerializationNameById ids i =
     (if i = PROTOSTUFF_SERIALIZATION_ID ids then ''protostuff''
      else if i = PROTOBUF_JSON_SERIALIZATION_ID ids then ''protobuf-json''
      else if i = PROTOBUF_SERIALIZATION_ID ids then ''protobuf''
      else ''hessian2'')"

text \<open>The second registry of the sources also lists the protostuff module under its id and
  its name.\<close>

definition idToSerializations_protostuff ::
  "SerializationIds \<Rightarrow> 'd Modules \<Rightarrow> 'd \<Rightarrow> (nat \<times> 'd) list" where
  "idToSerializations_protostuff ids m protostuff =
     [(HESSIAN2_SERIALIZATION_ID ids, hessian m),
      (PROTOBUF_JSON_SERIALIZATION_ID ids, protobuf_json m),
      (PROTOBUF_SERIALIZATION_ID ids, protobuf m),
      (PROTOSTUFF_SERIALIZATION_ID ids, protostuff)]"

definition nameToSerializations_protostuff :: "'d Modules \<Rightarrow> 'd \<Rightarrow> (string \<times> 'd) list" where
  "nameToSerializations_protostuff m protostuff =
     [(''hessian2'', hessian m), (''protobuf-json'', protobuf_json m), (''protobuf'', protobuf m),
      (''protostuff'', protostuff)]"

definition getSerializationById_protostuff ::
  "SerializationIds \<Rightarrow> 'd Modules \<Rightarrow> 'd \<Rightarrow> nat \<Rightarrow> 'd option" where
  "getSerializationById_protostuff ids m protostuff i =
     lookup (idToSerializations_protostuff ids m protostuff) i"

definition getSerializationByName_protostuff :: "'d Modules \<Rightarrow> 'd \<Rightarrow> string \<Rightarrow> 'd option" where
  "getSerializationByName_protostuff m protostuff name =
     lookup (nameToSerializations_protostuff m protostuff) name"

section \<open>The protocol-buffer packages\<close>

text \<open>The drivers call protobufjs and the global \<open>JSON\<close> object. Their codecs are not part of
  the repository and are parameters of the model: a message type is the record of its
  operations, and a property of a driver is proved for every behaviour of them.
  \<^item> \<open>encode\<close>: \<open>Msg.encode(Msg.create(x)).finish()\<close>;
  \<^item> \<open>create_toJSON\<close>: \<open>Msg.create(x).toJSON()\<close>;
  \<^item> \<open>decode_direct\<close>: \<open>Msg.decode(buf)\<close>, the message as a value;
  \<^item> \<open>decodeDelimited\<close>: \<open>Msg.decodeDelimited(content)\<close>;
  \<^item> \<open>toObject\<close>: \<open>Msg.toObject(message, conversionOptions)\<close>;
  \<^item> \<open>toJSON\<close>: \<open>message.toJSON()\<close>.\<close>

record MsgType =
  encode :: "jsval \<Rightarrow> error + bytes"
  create_toJSON :: "jsval \<Rightarrow> error + jsval"
  decode_direct :: "bytes \<Rightarrow> error + jsval"
  decodeDelimited :: "bytes \<Rightarrow> error + jsval"
  toObject :: "jsval \<Rightarrow> error + jsval"
  toJSON :: "jsval \<Rightarrow> error + jsval"

text \<open>A method of a service: its \<open>responseType\<close> name and what \<open>resolve()\<close> makes of it, the
  resolved response type or the error it throws.\<close>

record Method =
  responseType :: string
  resolvedResponseType :: "error + MsgType"

datatype reflection = Type MsgType | Service "(string \<times> Method) list"

text \<open>The resolved registry \<open>options.proto\<close>: \<open>root.lookup(path)\<close> and the truth value of the
  property \<open>root[name]\<close>.\<close>

record Root =
  lookup_path :: "string \<Rightarrow> reflection option"
  property_set :: "string \<Rightarrow> bool"

text \<open>The module-level caches of \<open>lib/utils.js\<close>.\<close>

record Caches =
  typeMap :: "string \<Rightarrow> reflection option"
  serviceMap :: "string \<Rightarrow> reflection option"
  methodMap :: "string \<Rightarrow> Method option"

definition findType :: "Root \<Rightarrow> string \<Rightarrow> Caches \<Rightarrow> error + reflection \<times> Caches" where
  "findType root path c =
     (case typeMap c path of
        Some target \<Rightarrow> Inr (target, c)
      | None \<Rightarrow>
         (case lookup_path root path of
            Some target \<Rightarrow> Inr (target, c\<lparr>typeMap := (typeMap c)(path \<mapsto> target)\<rparr>)
          | None \<Rightarrow> Inl (Error (''no such Type '' @ [CHR 0x27] @ path @ [CHR 0x27]
                                @ '' in proto file''))))"

definition findService :: "Root \<Rightarrow> string \<Rightarrow> Caches \<Rightarrow> error + reflection \<times> Caches" where
  "findService root path c =
     (case serviceMap c path of
        Some target \<Rightarrow> Inr (target, c)
      | None \<Rightarrow>
         (case lookup_path root path of
            Some target \<Rightarrow> Inr (target, c\<lparr>serviceMap := (serviceMap c)(path \<mapsto> target)\<rparr>)
          | None \<Rightarrow> Inl (Error (''no such Service '' @ [CHR 0x27] @ path @ [CHR 0x27]
                                @ '' in proto file''))))"

text \<open>A reflection object used as a message type or as a service: calling a method it does
  not have is a TypeError.\<close>

definition asType :: "reflection \<Rightarrow> error + MsgType" where
  "asType r = (case r of Type m \<Rightarrow> Inr m | Service ms \<Rightarrow> Inl (TypeError ''not a message type''))"

definition asService :: "reflection \<Rightarrow> error + (string \<times> Method) list" where
  "asService r = (case r of Service ms \<Rightarrow> Inr ms | Type m \<Rightarrow> Inl (TypeError ''not a service''))"

text \<open>\<open>serviceId.split(':')[0]\<close> and \<open>methodName.charAt(0).toUpperCase() +
  methodName.slice(1)\<close> (for ASCII letters).\<close>

definition beforeColon :: "string \<Rightarrow> string" where
  "beforeColon s = takeWhile (\<lambda>c. c \<noteq> CHR '':'') s"

definition capitalize :: "string \<Rightarrow> string" where
  "capitalize s =
     (case s of
        [] \<Rightarrow> []
      | c # cs \<Rightarrow>
          (if 97 \<le> (of_char c :: nat) \<and> (of_char c :: nat) \<le> 122
           then char_of ((of_char c :: nat) - 32) # cs else c # cs))"

definition getMethodInfo ::
  "Root \<Rightarrow> string \<Rightarrow> string \<Rightarrow> Caches \<Rightarrow> error + Method \<times> Caches" where
  "getMethodInfo root serviceId mname c =
     (let serviceName = beforeColon serviceId;
          key = serviceId @ ''#'' @ mname
      in case methodMap c key of
           Some method \<Rightarrow> Inr (method, c)
         | None \<Rightarrow>
             andThen (findService root serviceName c) (\<lambda>(r, c1).
             andThen (asService r) (\<lambda>service.
               case (case lookup service mname of
                       Some method \<Rightarrow> Some method
                     | None \<Rightarrow> lookup service (capitalize mname)) of
                 None \<Rightarrow> Inl (Error (''no such Method '' @ [CHR 0x27] @ mname @ [CHR 0x27]
                                      @ '' in Service '' @ [CHR 0x27] @ serviceId @ [CHR 0x27]))
               | Some method \<Rightarrow>
                   (case resolvedResponseType method of
                      Inl e \<Rightarrow> Inl e
                    | Inr t \<Rightarrow> Inr (method, c1\<lparr>methodMap := (methodMap c1)(key \<mapsto> method)\<rparr>)))))"

text \<open>The \<open>Writer\<close> of protobufjs as the drivers use it: \<open>len\<close>, which two drivers also assign
  to, and the bytes of the operations queued so far. \<open>bytes(buf)\<close> queues the length of the
  buffer as a varint and then the buffer. \<open>finish()\<close> returns a buffer of \<open>len\<close> bytes that
  starts with the queued bytes.\<close>

record Writer =
  w_len :: nat
  w_queued :: bytes

definition Writer_create :: Writer where
  "Writer_create = \<lparr>w_len = 0, w_queued = []\<rparr>"

fun varint :: "nat \<Rightarrow> bytes" where
  "varint n = (if n < 128 then [of_nat n] else of_nat (128 + n mod 128) # varint (n div 128))"

definition Writer_bytes :: "bytes \<Rightarrow> Writer \<Rightarrow> Writer" where
  "Writer_bytes b w =
     \<lparr>w_len = w_len w + length (varint (length b)) + length b,
      w_queued = w_queued w @ varint (length b) @ b\<rparr>"

definition finish :: "Writer \<Rightarrow> bytes" where
  "finish w = w_queued w @ replicate (w_len w - length (w_queued w)) 0"

text \<open>The \<open>Reader\<close> of protobufjs: the buffer and the cursor. \<open>bytes()\<close>, which reads a varint
  length and that many bytes, is a parameter of the drivers below.\<close>

record Reader =
  r_buf :: bytes
  r_pos :: nat

definition Reader_create :: "bytes \<Rightarrow> Reader" where
  "Reader_create buf = \<lparr>r_buf = buf, r_pos = 0\<rparr>"

definition Reader_skip :: "nat \<Rightarrow> Reader \<Rightarrow> error + Reader" where
  "Reader_skip n r =
     (if length (r_buf r) < r_pos r + n then Inl (RangeError ''index out of range'')
      else Inr (r\<lparr>r_pos := r_pos r + n\<rparr>))"

text \<open>Property reads that throw on \<open>undefined\<close> and \<open>null\<close>.\<close>

definition member :: "jsval \<Rightarrow> string \<Rightarrow> error + jsval" where
  "member v k =
     (if v = JUndefined \<or> v = JNull
      then Inl (TypeError (''Cannot read properties of undefined (reading '' @ k @ '')''))
      else Inr (get_prop v k))"

text \<open>What else the drivers take from the platform: \<open>JSON.stringify(x)\<close> (as the text that
  \<open>+ "\\n"\<close> appends to), \<open>Number.prototype.toString\<close>, the delimited encoding of the inline
  \<open>StringValue\<close> type of \<open>writeUTF\<close>, and \<open>Reader.bytes()\<close>.\<close>

record Platform =
  JSON_stringify :: "jsval \<Rightarrow> string"
  Number_toString :: "jsnum \<Rightarrow> string"
  StringValue_encodeDelimited :: "jsval \<Rightarrow> error + bytes"
  Reader_bytes :: "Reader \<Rightarrow> error + bytes \<times> Reader"

section \<open>The serialization drivers: writing\<close>

text \<open>The sources hold four driver modules:
  \<^item> \<open>jl\<close>: \<open>lib/serialize/protobuf-json/index.js\<close>, lines 1 to 180, JSON lines written into the
    packet's own \<open>ByteBuffer\<close>;
  \<^item> \<open>pbm\<close>: the same file, lines 181 to 451, the protobuf driver with \<open>mapType\<close>;
  \<^item> \<open>pb\<close>: the same file, lines 452 to 660, the protobuf driver without \<open>mapType\<close>;
  \<^item> \<open>pbj\<close>: \<open>unnamed/part_000\<close>, JSON lines queued on a protobufjs \<open>Writer\<close>.
  The encode session of the last three is the header buffer \<open>output.bytes\<close>, the module's
  \<open>encoder\<close> and the caches of \<open>lib/utils.js\<close>; the session of \<open>jl\<close> is its \<open>encoder\<close>, which is
  also \<open>output.bytes\<close>.\<close>

record Session =
  s_bytes :: ByteBuffer
  encoder :: Writer
  caches :: Caches

definition type_given :: "string option \<Rightarrow> bool" where
  "type_given t = (case t of None \<Rightarrow> False | Some n \<Rightarrow> n \<noteq> [])"

text \<open>The object that three of the drivers build for the \<open>'HashMap'\<close> tag.\<close>

definition attachmentProjection :: "jsval \<Rightarrow> jsval" where
  "attachmentProjection v =
     JObject [(''path'', js_or (get_prop v ''path'') (JStr [])),
              (''interface'', js_or (get_prop v ''path'') (JStr [])),
              (''group'', js_or (get_prop v ''group'') (JStr [])),
              (''version'', js_or (get_prop v ''version'') (JStr []))]"

text \<open>\<open>findType(opts.proto, name)\<close> for a name read from a value: a name that is not a string
  is outside the model.\<close>

definition findMsg :: "Root \<Rightarrow> jsval \<Rightarrow> Caches \<Rightarrow> error + MsgType \<times> Caches" where
  "findMsg root name c =
     (case name of
        JStr n \<Rightarrow> andThen (findType root n c) (\<lambda>(r, c1). andThen (asType r) (\<lambda>m. Inr (m, c1)))
      | _ \<Rightarrow> Inl (NotModelled ''a type name that is not a string''))"

subsection \<open>jl: JSON lines in the packet buffer\<close>

definition putRawString_val :: "jsval \<Rightarrow> ByteBuffer \<Rightarrow> error + ByteBuffer" where
  "putRawString_val v b =
     (case v of JStr s \<Rightarrow> Inr (putRawString s b)
      | _ \<Rightarrow> Inl (NotModelled ''putRawString of a value that is not a string''))"

definition writeObject_jl ::
  "Platform \<Rightarrow> jsval \<Rightarrow> jsval \<Rightarrow> string option \<Rightarrow> Root call_options \<Rightarrow> ByteBuffer
     \<Rightarrow> error + ByteBuffer" where
  "writeObject_jl P v cm t opts0 enc =
     (case options opts0 of
        None \<Rightarrow> Inr enc
      | Some opts \<Rightarrow>
          if \<not> truthy v then Inr enc
          else if truthy (get_prop v ''$class'') \<and> truthy (get_prop v ''$'') \<and> proto opts \<noteq> None
          then Inr (putRawString (JSON_stringify P (get_prop v ''$'') @ [CHR 0x0A]) enc)
          else if type_given t \<and> proto opts \<noteq> None
          then (let bytes = (if t = Some ''HashMap''
                             then JObject [(''attachments'', attachmentProjection v)] else v)
                in Inr (putRawString (JSON_stringify P bytes @ [CHR 0x0A]) enc))
          else Inr enc)"

definition writeUTF_jl ::
  "Platform \<Rightarrow> jsval \<Rightarrow> Root call_options \<Rightarrow> ByteBuffer \<Rightarrow> error + ByteBuffer" where
  "writeUTF_jl P v opts0 enc =
     (if options opts0 \<noteq> None then writeObject_jl P v JNull (Some ''StringValue'') opts0 enc
      else putRawString_val v enc)"

definition output_jl :: "Platform \<Rightarrow> SerializationIds \<Rightarrow> (ByteBuffer, Root) output_driver" where
  "output_jl P ids =
     \<lparr>serialize = ByteBuffer_new,
      bytes_of = (\<lambda>enc. enc),
      bytes_update = (\<lambda>f enc. f enc),
      contentTypeId = PROTOBUF_JSON_SERIALIZATION_ID ids,
      len = (\<lambda>enc. int (position enc)),
      get = (\<lambda>enc. bb_get (bb_offset enc) enc),
      writeUTF = writeUTF_jl P,
      writeObject = writeObject_jl P\<rparr>"

subsection \<open>pb: protobuf\<close>

text \<open>\<open>encoder.bytes(bytes)\<close> on the session.\<close>

definition queue :: "bytes \<Rightarrow> Caches \<Rightarrow> Session \<Rightarrow> Session" where
  "queue b c sess = sess\<lparr>encoder := Writer_bytes b (encoder sess), caches := c\<rparr>"

definition writeObject_pb ::
  "jsval \<Rightarrow> jsval \<Rightarrow> string option \<Rightarrow> Root call_options \<Rightarrow> Session \<Rightarrow> error + Session" where
  "writeObject_pb v cm t opts0 sess =
     (case options opts0 of
        None \<Rightarrow> Inr sess
      | Some opts \<Rightarrow>
          if \<not> truthy v then Inr sess
          else if truthy (get_prop v ''$class'') \<and> truthy (get_prop v ''$'') \<and> proto opts \<noteq> None
          then andThen (findMsg (the (proto opts)) (get_prop v ''$class'') (caches sess)) (\<lambda>(Msg, c).
               andThen (encode Msg (get_prop v ''$'')) (\<lambda>bytes. Inr (queue bytes c sess)))
          else if type_given t \<and> proto opts \<noteq> None
          then andThen (findMsg (the (proto opts)) (JStr (the t)) (caches sess)) (\<lambda>(Msg, c).
               andThen (encode Msg (JObject [(''value'',
                          if t = Some ''HashMap'' then attachmentProjection v else v)]))
                 (\<lambda>bytes. Inr (queue bytes c sess)))
          else Inr sess)"

text \<open>The raw branch of \<open>writeUTF\<close>: the delimited \<open>StringValue\<close> goes into the header buffer
  and \<open>encoder.len\<close> grows by 4.\<close>

definition writeUTF_raw :: "Platform \<Rightarrow> jsval \<Rightarrow> Session \<Rightarrow> error + Session" where
  "writeUTF_raw P v sess =
     andThen (StringValue_encodeDelimited P v) (\<lambda>bytes.
       Inr (sess\<lparr>encoder := (encoder sess)\<lparr>w_len := w_len (encoder sess) + 4\<rparr>,
                  s_bytes := put bytes (s_bytes sess)\<rparr>))"

definition writeUTF_pb ::
  "Platform \<Rightarrow> jsval \<Rightarrow> Root call_options \<Rightarrow> Session \<Rightarrow> error + Session" where
  "writeUTF_pb P v opts0 sess =
     (if options opts0 \<noteq> None then writeObject_pb v JNull (Some ''StringValue'') opts0 sess
      else writeUTF_raw P v sess)"

text \<open>\<open>get()\<close> of both protobuf drivers.\<close>

definition get_pb :: "Session \<Rightarrow> bytes" where
  "get_pb sess =
     (if bb_offset (s_bytes sess) > 16 then bb_get (bb_offset (s_bytes sess)) (s_bytes sess)
      else bb_get (bb_offset (s_bytes sess)) (s_bytes sess)
           @ take (w_len (encoder sess)) (finish (encoder sess)))"

definition newSession :: "Caches \<Rightarrow> Session" where
  "newSession c = \<lparr>s_bytes = ByteBuffer_new, encoder = Writer_create, caches = c\<rparr>"

definition output_pb ::
  "Platform \<Rightarrow> SerializationIds \<Rightarrow> Caches \<Rightarrow> (Session, Root) output_driver" where
  "output_pb P ids c =
     \<lparr>serialize = newSession c,
      bytes_of = s_bytes,
      bytes_update = (\<lambda>f sess. sess\<lparr>s_bytes := f (s_bytes sess)\<rparr>),
      contentTypeId = PROTOBUF_SERIALIZATION_ID ids,
      len = (\<lambda>sess. int (w_len (encoder sess))),
      get = get_pb,
      writeUTF = writeUTF_pb P,
      writeObject = writeObject_pb\<rparr>"

subsection \<open>pbm: protobuf with mapType\<close>

definition mapType :: "string \<Rightarrow> string option" where
  "mapType t =
     (if t = ''java.lang.String'' then Some ''StringValue''
      else if t = ''java.util.HashMap'' then Some ''HashMap''
      else if t = ''java.util.ArrayList'' then Some ''ArrayValue''
      else if t = ''java.lang.Exception'' then Some ''AnyVal''
      else if t = ''boolean'' then Some ''BoolValue''
      else if t = ''int'' then Some ''Int32Value''
      else if t = ''long'' then Some ''Int64Value''
      else if t = ''double'' then Some ''DoubleValue''
      else None)"

text \<open>\<open>mapType[name] || name\<close>. A name of a member of \<open>Object.prototype\<close> would find that
  member; such names are outside the model.\<close>

definition mapped :: "jsval \<Rightarrow> error + jsval" where
  "mapped name =
     (case name of
        JStr n \<Rightarrow>
          (case mapType n of
             Some m \<Rightarrow> Inr (JStr m)
           | None \<Rightarrow>
               if inheritedMember n \<noteq> None
               then Inl (NotModelled ''a type name that is a member of Object.prototype'')
               else Inr (JStr n))
      | _ \<Rightarrow> Inl (NotModelled ''a type name that is not a string''))"

text \<open>\<open>Object.entries(v)\<close>, and the loop that keeps the entries whose value is a string or a
  number, as strings.\<close>

definition entries :: "jsval \<Rightarrow> (string \<times> jsval) list" where
  "entries v = assign [] v"

definition keepStringsAndNumbers ::
  "Platform \<Rightarrow> (string \<times> jsval) list \<Rightarrow> (string \<times> jsval) list" where
  "keepStringsAndNumbers P arr =
     fold (\<lambda>(key, val) atts.
             case val of
               JStr s \<Rightarrow> set_prop atts key (JStr s)
             | JNum n \<Rightarrow> set_prop atts key (JStr (Number_toString P n))
             | _ \<Rightarrow> atts) arr []"

text \<open>The payload of the second branch. Values are plain data: none has a constructor with an
  \<open>encode\<close> function, unless it carries an own property \<open>constructor\<close>, and calling that is
  a TypeError.\<close>

definition typedPayload_pbm :: "Platform \<Rightarrow> string \<Rightarrow> jsval \<Rightarrow> error + jsval" where
  "typedPayload_pbm P t v =
     (if v = JUndefined \<or> v = JNull
      then Inl (TypeError ''Cannot convert undefined or null to object'')
      else if t = ''HashMap''
      then Inr (JObject [(''value'', JObject (keepStringsAndNumbers P (entries v)))])
      else if truthy (get_prop (get_prop v ''constructor'') ''encode'')
      then Inl (TypeError ''v.constructor.encode is not a function'')
      else Inr (JObject [(''value'', v)]))"

definition writeObject_pbm ::
  "Platform \<Rightarrow> jsval \<Rightarrow> jsval \<Rightarrow> string option \<Rightarrow> Root call_options \<Rightarrow> Session
     \<Rightarrow> error + Session" where
  "writeObject_pbm P v cm t opts0 sess =
     (case options opts0 of
        None \<Rightarrow> Inr sess
      | Some opts \<Rightarrow>
          if truthy v \<and> truthy (get_prop v ''$class'') \<and> truthy (get_prop v ''$'')
             \<and> proto opts \<noteq> None
          then andThen (mapped (get_prop v ''$class'')) (\<lambda>cls.
               andThen (findMsg (the (proto opts)) cls (caches sess)) (\<lambda>(Msg, c).
               andThen (encode Msg (case get_prop v ''$'' of JError msg \<Rightarrow> JStr msg | x \<Rightarrow> x))
                 (\<lambda>bytes. Inr (queue bytes c sess))))
          else if type_given t \<and> proto opts \<noteq> None
          then andThen (mapped (JStr (the t))) (\<lambda>t1.
               andThen (findMsg (the (proto opts)) t1 (caches sess)) (\<lambda>(Msg, c).
               andThen (typedPayload_pbm P (case t1 of JStr n \<Rightarrow> n | _ \<Rightarrow> []) v) (\<lambda>payload.
               andThen (encode Msg payload) (\<lambda>bytes. Inr (queue bytes c sess)))))
          else Inr sess)"

definition writeUTF_pbm ::
  "Platform \<Rightarrow> jsval \<Rightarrow> Root call_options \<Rightarrow> Session \<Rightarrow> error + Session" where
  "writeUTF_pbm P v opts0 sess =
     (if options opts0 \<noteq> None then writeObject_pbm P v JNull (Some ''StringValue'') opts0 sess
      else writeUTF_raw P v sess)"

definition output_pbm ::
  "Platform \<Rightarrow> SerializationIds \<Rightarrow> Caches \<Rightarrow> (Session, Root) output_driver" where
  "output_pbm P ids c =
     \<lparr>serialize = newSession c,
      bytes_of = s_bytes,
      bytes_update = (\<lambda>f sess. sess\<lparr>s_bytes := f (s_bytes sess)\<rparr>),
      contentTypeId = PROTOBUF_SERIALIZATION_ID ids,
      len = (\<lambda>sess. int (w_len (encoder sess))),
      get = get_pb,
      writeUTF = writeUTF_pbm P,
      writeObject = writeObject_pbm P\<rparr>"

subsection \<open>pbj: JSON lines on a Writer\<close>

definition jsonLine :: "Platform \<Rightarrow> jsval \<Rightarrow> bytes" where
  "jsonLine P x = string_bytes (JSON_stringify P x @ [CHR 0x0A])"

definition writeObject_pbj ::
  "Platform \<Rightarrow> jsval \<Rightarrow> jsval \<Rightarrow> string option \<Rightarrow> Root call_options \<Rightarrow> Session
     \<Rightarrow> error + Session" where
  "writeObject_pbj P v cm t opts0 sess =
     (case options opts0 of
        None \<Rightarrow> Inr sess
      | Some opts \<Rightarrow>
          if \<not> truthy v then Inr sess
          else if truthy (get_prop v ''$class'') \<and> truthy (get_prop v ''$'') \<and> proto opts \<noteq> None
          then andThen (findMsg (the (proto opts)) (get_prop v ''$class'') (caches sess)) (\<lambda>(Msg, c).
               andThen (create_toJSON Msg (get_prop v ''$'')) (\<lambda>bytes.
                 Inr (queue (jsonLine P bytes) c sess)))
          else if type_given t \<and> proto opts \<noteq> None
          then andThen (findMsg (the (proto opts)) (JStr (the t)) (caches sess)) (\<lambda>(Msg, c).
                 if t = Some ''HashMap''
                 then Inr (queue (jsonLine P (JObject [(''attachments'', attachmentProjection v)]))
                             c sess)
                 else andThen (create_toJSON Msg (JObject [(''value'', v)])) (\<lambda>json.
                      andThen (member json ''value'') (\<lambda>bytes.
                        Inr (queue (jsonLine P bytes) c sess))))
          else Inr sess)"

text \<open>Without \<open>options.options\<close> this \<open>writeUTF\<close> calls \<open>this.string(v)\<close>, which the object
  does not have.\<close>

definition writeUTF_pbj ::
  "Platform \<Rightarrow> jsval \<Rightarrow> Root call_options \<Rightarrow> Session \<Rightarrow> error + Session" where
  "writeUTF_pbj P v opts0 sess =
     (if options opts0 \<noteq> None then writeObject_pbj P v JNull (Some ''StringValue'') opts0 sess
      else Inl (TypeError ''this.string is not a function''))"

definition output_pbj ::
  "Platform \<Rightarrow> SerializationIds \<Rightarrow> Caches \<Rightarrow> (Session, Root) output_driver" where
  "output_pbj P ids c =
     \<lparr>serialize = newSession c,
      bytes_of = s_bytes,
      bytes_update = (\<lambda>f sess. sess\<lparr>s_bytes := f (s_bytes sess)\<rparr>),
      contentTypeId = PROTOBUF_JSON_SERIALIZATION_ID ids,
      len = (\<lambda>sess. int (w_len (encoder sess))),
      get = (\<lambda>sess. bb_get (bb_offset (s_bytes sess)) (s_bytes sess) @ finish (encoder sess)),
      writeUTF = writeUTF_pbj P,
      writeObject = writeObject_pbj P\<rparr>"

section \<open>The serialization drivers: reading\<close>

text \<open>The decode session of the three protobuf-based modules: the module's \<open>decoder\<close> and the
  caches of \<open>lib/utils.js\<close>.\<close>

record InSession =
  decoder :: Reader
  in_caches :: Caches

definition openSession :: "Caches \<Rightarrow> bytes \<Rightarrow> InSession" where
  "openSession c buf = \<lparr>decoder = Reader_create buf, in_caches = c\<rparr>"

definition skip_session :: "nat \<Rightarrow> InSession \<Rightarrow> error + InSession" where
  "skip_session n sess = andThen (Reader_skip n (decoder sess)) (\<lambda>d. Inr (sess\<lparr>decoder := d\<rparr>))"

text \<open>\<open>const buf = decoder.bytes()\<close>\<close>

definition nextBytes :: "Platform \<Rightarrow> InSession \<Rightarrow> error + bytes \<times> InSession" where
  "nextBytes P sess =
     andThen (Reader_bytes P (decoder sess)) (\<lambda>(buf, d). Inr (buf, sess\<lparr>decoder := d\<rparr>))"

text \<open>\<open>try { direct } catch (e) { const content = Buffer.concat([Buffer.from(
  utils.int2hex(buf.length), 'hex'), buf]); delimited }\<close>: the direct decode of \<open>buf\<close> with
  its conversion. \<open>utils\<close> is \<open>lib/utils.js\<close>, which exports no \<open>int2hex\<close>: when something
  in the \<open>try\<close> block throws, the first call of the \<open>catch\<close> block throws a TypeError, and the
  \<open>decodeDelimited\<close> after it is not reached.\<close>

definition directThenDelimited ::
  "MsgType \<Rightarrow> (jsval \<Rightarrow> error + jsval) \<Rightarrow> bytes \<Rightarrow> error + jsval" where
  "directThenDelimited Msg convert buf =
     (case andThen (decode_direct Msg buf) convert of
        Inr decoded \<Rightarrow> Inr decoded
      | Inl e \<Rightarrow> Inl (TypeError ''utils.int2hex is not a function''))"

text \<open>\<open>Msg.decodeDelimited(Buffer.concat([Buffer.from([buf.length]), buf]))\<close>\<close>

definition delimitedOnly :: "MsgType \<Rightarrow> bytes \<Rightarrow> error + jsval" where
  "delimitedOnly Msg buf = decodeDelimited Msg (of_nat (length buf) # buf)"

text \<open>The reply branch up to the response type: \<open>serviceId\<close>, \<open>getMethodInfo\<close> and
  \<open>methodInfo.responseType\<close>. The result is the resolved response type, or nothing when the
  method names no response type.\<close>

definition replyType ::
  "Root \<Rightarrow> jsval \<Rightarrow> Caches \<Rightarrow> error + MsgType option \<times> Caches" where
  "replyType root chan c =
     andThen (member chan ''req'') (\<lambda>req.
     andThen (member req ''requestProps'') (\<lambda>props.
     andThen (member props ''service'') (\<lambda>service.
       case js_or service (get_prop req ''serverSignature'') of
         JStr serviceId \<Rightarrow>
           (case get_prop req ''methodName'' of
              JStr mname \<Rightarrow>
                andThen (getMethodInfo root serviceId mname c) (\<lambda>(methodInfo, c1).
                  if responseType methodInfo = [] then Inr (None, c1)
                  else andThen (resolvedResponseType methodInfo) (\<lambda>t. Inr (Some t, c1)))
            | _ \<Rightarrow> Inl (NotModelled ''a method name that is not a string''))
       | _ \<Rightarrow> Inl (NotModelled ''a service id that is not a string''))))"

subsection \<open>pbm: protobuf with mapType\<close>

text \<open>The values of the model are plain data, none is a \<open>Map\<close>, so the conversion of a \<open>Map\<close>
  result into an object at the end of the typed branch does not apply.\<close>

definition readObject_pbm ::
  "Platform \<Rightarrow> Root call_options \<Rightarrow> string option \<Rightarrow> InSession \<Rightarrow> error + jsval \<times> InSession"
  where
  "readObject_pbm P opts t sess =
     (case proto opts of
        None \<Rightarrow> Inr (JUndefined, sess)
      | Some root \<Rightarrow>
          if type_given t then
            andThen (mapped (JStr (the t))) (\<lambda>t1.
            andThen (findMsg root t1 (in_caches sess)) (\<lambda>(Msg, c).
            andThen (nextBytes P (sess\<lparr>in_caches := c\<rparr>)) (\<lambda>(buf, sess1).
            andThen (directThenDelimited Msg
                       (\<lambda>m. andThen (toObject Msg m) (\<lambda>decoded.
                          if property_set root (case t1 of JStr n \<Rightarrow> n | _ \<Rightarrow> [])
                          then member decoded ''value'' else Inr decoded)) buf)
              (\<lambda>decoded. Inr (decoded, sess1)))))
          else if truthy (channel opts) then
            andThen (replyType root (channel opts) (in_caches sess)) (\<lambda>(rt, c).
              case rt of
                None \<Rightarrow> Inr (JStr [], sess\<lparr>in_caches := c\<rparr>)
              | Some rtype \<Rightarrow>
                  andThen (nextBytes P (sess\<lparr>in_caches := c\<rparr>)) (\<lambda>(buf, sess1).
                  andThen (directThenDelimited rtype (toObject rtype) buf)
                    (\<lambda>appResponse. Inr (appResponse, sess1))))
          else Inr (JUndefined, sess))"

definition input_pbm :: "Platform \<Rightarrow> Caches \<Rightarrow> (InSession, Root) input_driver" where
  "input_pbm P c =
     \<lparr>deserialize = openSession c,
      skip_in = skip_session,
      readObject = readObject_pbm P,
      readUTF = (\<lambda>opts. readObject_pbm P opts (Some ''StringValue''))\<rparr>"

subsection \<open>pb: protobuf\<close>

definition readObject_pb ::
  "Platform \<Rightarrow> Root call_options \<Rightarrow> string option \<Rightarrow> InSession \<Rightarrow> error + jsval \<times> InSession"
  where
  "readObject_pb P opts t sess =
     (case proto opts of
        None \<Rightarrow> Inr (JUndefined, sess)
      | Some root \<Rightarrow>
          if type_given t then
            andThen (findMsg root (JStr (the t)) (in_caches sess)) (\<lambda>(Msg, c).
            andThen (nextBytes P (sess\<lparr>in_caches := c\<rparr>)) (\<lambda>(buf, sess1).
            andThen (delimitedOnly Msg buf) (\<lambda>m.
            andThen (toJSON Msg m) (\<lambda>json.
            andThen (member json ''value'') (\<lambda>decoded. Inr (decoded, sess1))))))
          else if truthy (channel opts) then
            andThen (replyType root (channel opts) (in_caches sess)) (\<lambda>(rt, c).
              case rt of
                None \<Rightarrow> Inr (JStr [], sess\<lparr>in_caches := c\<rparr>)
              | Some rtype \<Rightarrow>
                  andThen (nextBytes P (sess\<lparr>in_caches := c\<rparr>)) (\<lambda>(buf, sess1).
                  andThen (directThenDelimited rtype (toJSON rtype) buf)
                    (\<lambda>appResponse. Inr (appResponse, sess1))))
          else Inr (JUndefined, sess))"

definition input_pb :: "Platform \<Rightarrow> Caches \<Rightarrow> (InSession, Root) input_driver" where
  "input_pb P c =
     \<lparr>deserialize = openSession c,
      skip_in = skip_session,
      readObject = readObject_pb P,
      readUTF = (\<lambda>opts. readObject_pb P opts (Some ''StringValue''))\<rparr>"

subsection \<open>pbj: JSON lines on a Writer\<close>

definition readObject_pbj ::
  "Platform \<Rightarrow> Root call_options \<Rightarrow> string option \<Rightarrow> InSession \<Rightarrow> error + jsval \<times> InSession"
  where
  "readObject_pbj P opts t sess =
     (case proto opts of
        None \<Rightarrow> Inr (JUndefined, sess)
      | Some root \<Rightarrow>
          if type_given t then
            andThen (findMsg root (JStr (the t)) (in_caches sess)) (\<lambda>(Msg, c).
            andThen (nextBytes P (sess\<lparr>in_caches := c\<rparr>)) (\<lambda>(buf, sess1).
            andThen (delimitedOnly Msg buf) (\<lambda>m.
            andThen (toJSON Msg m) (\<lambda>json.
            andThen (member json (if t = Some ''HashMap'' then ''attachments'' else ''value''))
              (\<lambda>decoded. Inr (decoded, sess1))))))
          else if truthy (channel opts) then
            andThen (replyType root (channel opts) (in_caches sess)) (\<lambda>(rt, c).
              case rt of
                None \<Rightarrow> Inr (JStr [], sess\<lparr>in_caches := c\<rparr>)
              | Some rtype \<Rightarrow>
                  andThen (nextBytes P (sess\<lparr>in_caches := c\<rparr>)) (\<lambda>(buf, sess1).
                  andThen (delimitedOnly rtype buf) (\<lambda>m.
                  andThen (toJSON rtype m) (\<lambda>appResponse. Inr (appResponse, sess1)))))
          else Inr (JUndefined, sess))"

definition input_pbj :: "Platform \<Rightarrow> Caches \<Rightarrow> (InSession, Root) input_driver" where
  "input_pbj P c =
     \<lparr>deserialize = openSession c,
      skip_in = skip_session,
      readObject = readObject_pbj P,
      readUTF = (\<lambda>opts. readObject_pbj P opts (Some ''StringValue''))\<rparr>"

section \<open>The order of body writes\<close>

text \<open>To state in which order \<open>encode\<close> calls the writers of a driver: a call, and running a
  list of calls on a session of the driver, first call first, up to the first that throws.\<close>

datatype write_call = WriteUTF jsval | WriteObject jsval jsval "string option"

fun perform ::
  "('o, 'p) output_driver \<Rightarrow> 'p call_options \<Rightarrow> write_call list \<Rightarrow> 'o \<Rightarrow> error + 'o" where
  "perform drv opts [] out = Inr out"
| "perform drv opts (WriteUTF v # cs) out =
     andThen (writeUTF drv v opts out) (perform drv opts cs)"
| "perform drv opts (WriteObject v cm t # cs) out =
     andThen (writeObject drv v cm t opts out) (perform drv opts cs)"

text \<open>The calls for the arguments: argument \<open>i\<close> under the \<open>i\<close>-th entry of the type list.\<close>

definition argumentCalls :: "jsval \<Rightarrow> jsval list \<Rightarrow> string list \<Rightarrow> write_call list" where
  "argumentCalls cm as types =
     map (\<lambda>i. WriteObject (js_nth as i) cm (Some (types ! i))) [0..<length types]"

text \<open>A driver that only records the calls made on it, for examples.\<close>

definition recorder :: "(write_call list, 'p) output_driver" where
  "recorder =
     \<lparr>serialize = [],
      bytes_of = (\<lambda>out. ByteBuffer_new),
      bytes_update = (\<lambda>f out. out),
      contentTypeId = 0,
      len = (\<lambda>out. 0),
      get = (\<lambda>out. []),
      writeUTF = (\<lambda>v opts out. Inr (out @ [WriteUTF v])),
      writeObject = (\<lambda>v cm t opts out. Inr (out @ [WriteObject v cm t]))\<rparr>"

text \<open>A decode session that answers each read with the next value of a fixed list, for
  examples.\<close>

definition nextValue :: "jsval list \<Rightarrow> error + jsval \<times> jsval list" where
  "nextValue vs = (case vs of [] \<Rightarrow> Inl (RangeError ''no value left'') | v # r \<Rightarrow> Inr (v, r))"

definition scripted :: "jsval list \<Rightarrow> (jsval list, 'p) input_driver" where
  "scripted vs =
     \<lparr>deserialize = (\<lambda>buf. vs),
      skip_in = (\<lambda>n s. Inr s),
      readObject = (\<lambda>opts t s. nextValue s),
      readUTF = (\<lambda>opts s. nextValue s)\<rparr>"

text \<open>Values for the examples: the usual Dubbo names for the absent constants, and an
  options object with nothing set.\<close>

definition exampleConstants :: Constants where
  "exampleConstants =
     \<lparr>DEFAULT_REMOTING_SERIALIZATION = ''hessian2'', DUBBO_VERSION_KEY = ''dubbo'',
      PATH_KEY = ''path'', VERSION_KEY = ''version''\<rparr>"

definition exampleIds :: SerializationIds where
  "exampleIds =
     \<lparr>HESSIAN2_SERIALIZATION_ID = 2, PROTOSTUFF_SERIALIZATION_ID = 12,
      PROTOBUF_JSON_SERIALIZATION_ID = 21, PROTOBUF_SERIALIZATION_ID = 22\<rparr>"

definition noOptions :: "'p call_options" where
  "noOptions =
     \<lparr>proto = None, channel = JUndefined, codecType = None, classMap = JUndefined,
      options = None\<rparr>"

definition sayHello :: Request where
  "sayHello =
     \<lparr>id_req = 1, version = ''2.0.0'', isTwoWay = True, isEvent = False, isBroken = False,
      data = PInvocation
        \<lparr>methodName = ''sayHello'', args = [JStr ''world''],
         attachments = [(''path'', JStr ''com.example.Greeter'')]\<rparr>\<rparr>"

text \<open>Stand-ins for the platform and for a proto registry, for the examples. Lengths are read
  as base-128 varints, as protobufjs does; the message type encodes \<open>{value: x}\<close> as the key
  names of \<open>x\<close>, decodes any buffer to its byte count, and decodes a delimited buffer by
  reading the length and decoding that many bytes.\<close>

fun readVarint :: "bytes \<Rightarrow> (nat \<times> bytes) option" where
  "readVarint [] = None"
| "readVarint (b # bs) =
     (if unat b < 128 then Some (unat b, bs)
      else case readVarint bs of
             None \<Rightarrow> None
           | Some (n, rest) \<Rightarrow> Some (unat b - 128 + 128 * n, rest))"

definition readDelimited :: "bytes \<Rightarrow> error + bytes \<times> bytes" where
  "readDelimited b =
     (case readVarint b of
        None \<Rightarrow> Inl (RangeError ''index out of range'')
      | Some (n, rest) \<Rightarrow>
          if n \<le> length rest then Inr (take n rest, drop n rest)
          else Inl (RangeError ''index out of range''))"

definition examplePlatform :: Platform where
  "examplePlatform =
     \<lparr>JSON_stringify = (\<lambda>v. case v of JStr s \<Rightarrow> [CHR 0x22] @ s @ [CHR 0x22] | _ \<Rightarrow> ''{}''),
      Number_toString = (\<lambda>n. case n of NInt i \<Rightarrow> decimal (nat i) | _ \<Rightarrow> ''NaN''),
      StringValue_encodeDelimited =
        (\<lambda>v. case v of
               JStr s \<Rightarrow> Inr (varint (2 + length s) @ [0x0a] @ varint (length s) @ string_bytes s)
             | _ \<Rightarrow> Inl (TypeError ''string expected'')),
      Reader_bytes =
        (\<lambda>r. andThen (readDelimited (drop (r_pos r) (r_buf r))) (\<lambda>(b, rest).
               Inr (b, r\<lparr>r_pos := length (r_buf r) - length rest\<rparr>)))\<rparr>"

definition exampleType :: MsgType where
  "exampleType =
     \<lparr>encode = (\<lambda>x. Inr (string_bytes
                  (concat (map (\<lambda>(k, v). k @ '';'') (own_props (get_prop x ''value'')))))),
      create_toJSON = Inr,
      decode_direct = (\<lambda>b. Inr (JObject [(''value'', JNum (NInt (int (length b))))])),
      decodeDelimited =
        (\<lambda>b. andThen (readDelimited b) (\<lambda>(m, rest).
               Inr (JObject [(''value'', JNum (NInt (int (length m))))]))),
      toObject = Inr,
      toJSON = Inr\<rparr>"

definition exampleRoot :: Root where
  "exampleRoot = \<lparr>lookup_path = (\<lambda>n. Some (Type exampleType)), property_set = (\<lambda>n. True)\<rparr>"

definition noCaches :: Caches where
  "noCaches = \<lparr>typeMap = Map.empty, serviceMap = Map.empty, methodMap = Map.empty\<rparr>"

definition typedOptions :: "Root call_options" where
  "typedOptions =
     \<lparr>proto = Some exampleRoot, channel = JUndefined, codecType = Some ''protobuf'',
      classMap = JUndefined,
      options = Some \<lparr>proto = Some exampleRoot, channel = JUndefined\<rparr>\<rparr>"

definition heartbeat :: Request where
  "heartbeat =
     \<lparr>id_req = 1, version = ''2.0.0'', isTwoWay = True, isEvent = True, isBroken = False,
      data = PValue JNull\<rparr>"

text \<open>What a write left queued on the encoder, if it returned.\<close>

definition queuedBy :: "error + Session \<Rightarrow> bytes option" where
  "queuedBy r = (case r of Inr sess \<Rightarrow> Some (w_queued (encoder sess)) | Inl e \<Rightarrow> None)"

section \<open>The header in an encode session\<close>

text \<open>For the proofs about the first twelve bytes of a packet: a buffer that holds the bytes
  \<open>h\<close> in front of its cursor, and a driver whose writers and \<open>get()\<close> leave such a front
  alone.\<close>

definition headed :: "bytes \<Rightarrow> ByteBuffer \<Rightarrow> bool" where
  "headed h b = (12 \<le> bb_offset b \<and> 12 \<le> length (bb_bytes b) \<and> take 12 (bb_bytes b) = h)"

definition keepsHeader :: "bytes \<Rightarrow> ('o, 'p) output_driver \<Rightarrow> 'p call_options \<Rightarrow> bool" where
  "keepsHeader h drv opts =
     ((\<forall>v out out'. writeUTF drv v opts out = Inr out' \<longrightarrow> headed h (bytes_of drv out)
          \<longrightarrow> headed h (bytes_of drv out'))
    \<and> (\<forall>v cm t out out'. writeObject drv v cm t opts out = Inr out'
          \<longrightarrow> headed h (bytes_of drv out) \<longrightarrow> headed h (bytes_of drv out'))
    \<and> (\<forall>out. headed h (bytes_of drv out)
          \<longrightarrow> 12 \<le> length (get drv out) \<and> take 12 (get drv out) = h)
    \<and> (\<forall>f out. bytes_of drv (bytes_update drv f out) = f (bytes_of drv out))
    \<and> bytes_of drv (serialize drv) = ByteBuffer_new)"

section \<open>Properties\<close>

subsection \<open>Words and header bytes\<close>

lemma be32_int32BE:
  "be32 (ucast (drop_bit 24 w)) (ucast (drop_bit 16 w)) (ucast (drop_bit 8 w)) (ucast w)
     = (w :: 32 word)"
  unfolding be32_def
proof (rule bit_word_eqI)
  fix n :: nat
  assume "n < LENGTH(32)"
  then have n: "n < 32" by simp
  consider "n < 8" | "8 \<le> n" "n < 16" | "16 \<le> n" "n < 24" | "24 \<le> n" by linarith
  then show "bit (push_bit 24 (ucast (ucast (drop_bit 24 w) :: 8 word))
                  OR push_bit 16 (ucast (ucast (drop_bit 16 w) :: 8 word))
                  OR push_bit 8 (ucast (ucast (drop_bit 8 w) :: 8 word))
                  OR (ucast (ucast w :: 8 word) :: 32 word)) n = bit w n"
    using n by cases (auto simp add: bit_simps)
qed

lemma Long_halves: "Long (ucast v) (ucast (drop_bit 32 v)) = (v :: 64 word)"
  unfolding Long_def by (rule bit_word_eqI) (auto simp add: bit_simps)

lemma header_bytes:
  "bb_bytes (encodeHeader cid req ByteBuffer_new) =
     [MAGIC_HIGH, MAGIC_LOW, of_nat (flagOf cid req), 0]
     @ int32BE (ucast (drop_bit 32 (id_req req))) @ int32BE (ucast (id_req req)) @ [0, 0, 0, 0]"
  by (simp add: encodeHeader_def put_def putLong_def skip_def write_at_def Let_def int32BE_def
        ByteBuffer_new_def numeral_eq_Suc)

lemma header_offset: "bb_offset (encodeHeader cid req ByteBuffer_new) = 16"
  by (simp add: encodeHeader_def put_def putLong_def skip_def Let_def int32BE_def
        ByteBuffer_new_def)









subsection \<open>Type descriptors\<close>

text \<open>
  C1. The descriptor of an argument list should decode to one type entry per argument. For an
  argument tagged with a two-dimensional array class, \<open>{$class: '[[int', $: []}\<close>,
  \<open>getJavaArgsDesc\<close> writes one \<open>'['\<close> per dimension and returns \<open>'[[I'\<close>, but
  \<open>desc2classArray\<close> accepts a single \<open>'['\<close> only: it reads the second \<open>'['\<close> as the type
  character and throws, so no type list is returned at all.
\<close>

theorem desc2classArray_rejects_nested_array:
  "getJavaArgsDesc [JObject [(''$class'', JStr ''[[int''), (''$'', JArray [])]] = Inr ''[[I''
   \<and> desc2classArray ''[[I'' = Inl (Error ''[double-remoting] unknown class type => ['')"
  by (simp add: has_def taggedClassDesc_def get_prop_def js_or_def primitiveMap_def
        desc2classArray_def classEntry_def javaTypeOf_def unknownClassType_def)

lemma readClass_closed:
  "CHR '';'' \<notin> set body \<Longrightarrow> readClass acc (body @ CHR '';'' # rest) = (acc @ body, rest)"
  by (induction body arbitrary: acc) auto

lemma stripArray_prefix:
  "stripArray ret c = (r, cls) \<Longrightarrow> \<exists>k. r = ret @ replicate k (CHR ''['')"
proof (induction c arbitrary: ret)
  case Nil
  then show ?case by (intro exI [where x = 0]) simp
next
  case (Cons x xs)
  show ?case
  proof (cases "x = CHR ''[''")
    case True
    with Cons.prems have "stripArray (ret @ ''['') xs = (r, cls)" by simp
    from Cons.IH [OF this] obtain k where "r = (ret @ ''['') @ replicate k (CHR ''['')" ..
    then have "r = ret @ replicate (Suc k) (CHR ''['')" by simp
    then show ?thesis ..
  next
    case False
    with Cons.prems show ?thesis by (intro exI [where x = 0]) simp
  qed
qed

lemma primitive_letter:
  "primitiveMap cls = Some p \<Longrightarrow>
     p \<in> {''V'', ''Z'', ''B'', ''C'', ''D'', ''F'', ''I'', ''J'', ''S''}"
  by (auto simp add: primitiveMap_def split: if_splits)

lemma oneEntry_primitive:
  assumes "p \<in> {''V'', ''Z'', ''B'', ''C'', ''D'', ''F'', ''I'', ''J'', ''S''}"
  shows "\<exists>e. oneEntry p e" and "\<exists>e. oneEntry (''['' @ p) e"
  using assms by (auto simp add: oneEntry_def classEntry_def javaTypeOf_def intro: exI)

lemma oneEntry_class:
  assumes "CHR '';'' \<notin> set cls"
  shows "\<exists>e. oneEntry (''L'' @ dots2slashes cls @ '';'') e"
    and "\<exists>e. oneEntry (''['' @ ''L'' @ dots2slashes cls @ '';'') e"
proof -
  have "CHR '';'' \<notin> set (dots2slashes cls)"
    using assms by (auto simp add: dots2slashes_def)
  from readClass_closed [OF this, of "[]"]
  have r: "readClass [] (dots2slashes cls @ CHR '';'' # rest) = (dots2slashes cls, rest)" for rest
    by simp
  show "\<exists>e. oneEntry (''L'' @ dots2slashes cls @ '';'') e"
    by (rule exI [where x = "slashes2dots (dots2slashes cls)"])
       (simp add: oneEntry_def classEntry_def javaTypeOf_def r)
  show "\<exists>e. oneEntry (''['' @ ''L'' @ dots2slashes cls @ '';'') e"
    by (rule exI [where x = "''['' @ slashes2dots (dots2slashes cls)"])
       (simp add: oneEntry_def classEntry_def javaTypeOf_def r)
qed

lemma oneEntry_tagged:
  assumes "plainlyTagged (JObject ps)" and "has (JObject ps) ''$class''"
  shows "\<exists>d e. taggedClassDesc (JObject ps) = Inr d \<and> oneEntry d e"
proof -
  from assms obtain c where
    c: "js_or (get_prop (JObject ps) ''$abstractClass'') (get_prop (JObject ps) ''$class'') = JStr c"
    by (auto simp add: plainlyTagged_def split: jsval.splits)
  obtain ret cls where s: "stripArray [] c = (ret, cls)" by (cases "stripArray [] c")
  from assms c s have l: "length ret \<le> 1" and n: "CHR '';'' \<notin> set cls"
    and i: "inheritedMember cls = None"
    by (simp_all add: plainlyTagged_def)
  from stripArray_prefix [OF s] obtain k where k: "ret = replicate k (CHR ''['')" by auto
  with l have "k = 0 \<or> k = 1" by auto
  with k have ret: "ret = [] \<or> ret = ''[''" by auto
  show ?thesis
  proof (cases "primitiveMap cls")
    case None
    then have d: "taggedClassDesc (JObject ps) = Inr (ret @ ''L'' @ dots2slashes cls @ '';'')"
      by (simp add: taggedClassDesc_def c s i)
    from ret oneEntry_class [OF n] show ?thesis unfolding d by auto
  next
    case (Some p)
    then have d: "taggedClassDesc (JObject ps) = Inr (ret @ p)"
      by (simp add: taggedClassDesc_def c s)
    from ret oneEntry_primitive [OF primitive_letter [OF Some]] show ?thesis unfolding d by auto
  qed
qed

lemma oneEntry_arg:
  assumes "plainlyTagged a"
  shows "\<exists>d e. getJavaClassDesc a = Inr d \<and> oneEntry d e"
proof (cases a)
  case (JObject ps)
  show ?thesis
  proof (cases "has (JObject ps) ''$class''")
    case True
    from oneEntry_tagged [OF assms [unfolded JObject] True] show ?thesis
      unfolding JObject using True by simp
  next
    case False
    then show ?thesis unfolding JObject
      by (simp add: oneEntry_def classEntry_def javaTypeOf_def) blast
  qed
next
  case (JNum n)
  then show ?thesis by (auto simp add: oneEntry_def classEntry_def javaTypeOf_def intro: exI)
qed ((simp add: oneEntry_def classEntry_def javaTypeOf_def, blast)+)

lemma oneEntry_alone: "oneEntry d e \<Longrightarrow> desc2classArray d = Inr [e]"
  unfolding oneEntry_def desc2classArray_def
  by (drule spec [where x = "[]"], drule spec [where x = "[]"]) simp

lemma argv_entries:
  assumes "\<forall>a \<in> set argv. plainlyTagged a"
  shows "\<exists>d ts. getJavaArgsDesc argv = Inr d
           \<and> (\<forall>rest arr. desc2classLoop (d @ rest) arr = desc2classLoop rest (arr @ ts))
           \<and> list_all2 (\<lambda>a t. \<exists>da. getJavaClassDesc a = Inr da \<and> desc2classArray da = Inr [t])
                argv ts"
  using assms
proof (induction argv)
  case Nil
  show ?case by simp
next
  case (Cons a as)
  from Cons.prems have "plainlyTagged a" by simp
  from oneEntry_arg [OF this] obtain da e where
    da: "getJavaClassDesc a = Inr da" and e: "oneEntry da e" by blast
  from Cons obtain d ts where d: "getJavaArgsDesc as = Inr d"
    and l: "\<And>rest arr. desc2classLoop (d @ rest) arr = desc2classLoop rest (arr @ ts)"
    and o: "list_all2 (\<lambda>a t. \<exists>da. getJavaClassDesc a = Inr da \<and> desc2classArray da = Inr [t])
                as ts"
    by auto
  have 1: "getJavaArgsDesc (a # as) = Inr (da @ d)" by (simp add: da d)
  have 2: "desc2classLoop ((da @ d) @ rest) arr = desc2classLoop rest (arr @ e # ts)" for rest arr
    using e [unfolded oneEntry_def] l by simp
  have 3: "list_all2 (\<lambda>a t. \<exists>da. getJavaClassDesc a = Inr da \<and> desc2classArray da = Inr [t])
                (a # as) (e # ts)"
    using o da oneEntry_alone [OF e] by simp
  from 1 2 3 show ?case by blast
qed

text \<open>
  For all other argument lists the two translators agree: when every tagged argument names
  a class with at most one leading \<open>'['\<close>, \<open>desc2classArray\<close> returns one entry per argument,
  and the entry at each position is the one the argument at that position gives by itself.
  Untagged arguments, \<open>null\<close> and \<open>undefined\<close> among them, are always of this kind.
\<close>

lemma single_dimension_round_trip:
  assumes "\<forall>a \<in> set argv. plainlyTagged a"
  shows "\<exists>d ts. getJavaArgsDesc argv = Inr d \<and> desc2classArray d = Inr ts
           \<and> length ts = length argv
           \<and> list_all2 (\<lambda>a t. \<exists>da. getJavaClassDesc a = Inr da \<and> desc2classArray da = Inr [t])
                argv ts"
proof -
  from argv_entries [OF assms] obtain d ts where d: "getJavaArgsDesc argv = Inr d"
    and l: "\<And>rest arr. desc2classLoop (d @ rest) arr = desc2classLoop rest (arr @ ts)"
    and o: "list_all2 (\<lambda>a t. \<exists>da. getJavaClassDesc a = Inr da \<and> desc2classArray da = Inr [t])
                argv ts"
    by auto
  from l [of "[]" "[]"] have "desc2classArray d = Inr ts" by (simp add: desc2classArray_def)
  moreover from o have "length ts = length argv" by (simp add: list_all2_lengthD)
  ultimately show ?thesis using d o by blast
qed

lemma single_dimension_example:
  "(\<forall>a \<in> set [JNull, JStr ''a'', JObject [(''$class'', JStr ''[int''), (''$'', JArray [])],
                   JObject [(''$class'', JStr ''com.example.User''), (''$'', JObject [])]].
      plainlyTagged a)
   \<and> getJavaArgsDesc
       [JNull, JStr ''a'', JObject [(''$class'', JStr ''[int''), (''$'', JArray [])],
        JObject [(''$class'', JStr ''com.example.User''), (''$'', JObject [])]]
     = Inr ''Ljava/lang/Object;Ljava/lang/String;[ILcom/example/User;''
   \<and> desc2classArray ''Ljava/lang/Object;Ljava/lang/String;[ILcom/example/User;''
     = Inr [''java.lang.Object'', ''java.lang.String'', ''[int'', ''com.example.User'']"
  by (simp add: plainlyTagged_def has_def taggedClassDesc_def get_prop_def js_or_def
        primitiveMap_def inheritedMember_def dots2slashes_def slashes2dots_def
        desc2classArray_def classEntry_def javaTypeOf_def)

subsection \<open>Sequencing\<close>

lemma andThen_Inr_simp: "andThen (Inr x) f = f x"
  by (simp add: andThen_def)

lemma andThenE:
  assumes "andThen r f = Inr y"
  obtains x where "r = Inr x" and "f x = Inr y"
  using assms by (cases r) (simp_all add: andThen_def)

lemma readLong_ok: "12 \<le> length buf \<Longrightarrow> \<exists>l. readLong buf = Inr l"
  by (simp add: readLong_def readInt32BE_def andThen_def)

subsection \<open>Objects\<close>

lemma map_of_rev_replace:
  "map_of (rev (map (\<lambda>(k', v'). if k' = k then (k', v) else (k', v')) ps)) k' =
     (if k' = k then (if k \<in> fst ` set ps then Some v else None) else map_of (rev ps) k')"
proof (induction ps)
  case Nil
  show ?case by simp
next
  case (Cons x xs)
  obtain a b where x: "x = (a, b)" by (cases x)
  show ?case
    unfolding x using Cons
    by (auto simp add: map_add_def split: option.splits)
qed

lemma get_prop_set_prop:
  "get_prop (JObject (set_prop ps k v)) k' = (if k' = k then v else get_prop (JObject ps) k')"
proof (cases "k \<in> set (map fst ps)")
  case True
  then show ?thesis
    by (simp add: get_prop_def set_prop_def map_of_rev_replace)
next
  case False
  then have "map_of (rev ps) k = None" by (simp add: map_of_eq_None_iff)
  with False show ?thesis
    by (simp add: get_prop_def set_prop_def)
qed


subsection \<open>The codec registry\<close>

lemma lookup_None: "lookup xs k = None \<longleftrightarrow> k \<notin> set (map fst xs)"
  by (simp add: lookup_def map_of_eq_None_iff)

lemma decode_unresolved:
  assumes "12 \<le> length buf" and "byId (unat (buf ! 2) AND SERIALIZATION_MASK) = None"
  shows "Request_decode handleLong ToString C byId buf opts
            = Inl (TypeError ''Cannot read properties of undefined (reading deserialize)'')"
proof -
  obtain l where l: "readLong buf = Inr l" using readLong_ok [OF assms(1)] by blast
  show ?thesis
    unfolding Request_decode_def l andThen_def Let_def using assms(2) by simp
qed

text \<open>
  C5. What the code does for a serialization id without a driver. \<open>getSerializationById\<close> never
  fails by itself: for an id that is not a key of \<open>idToSerializations\<close> it returns
  \<open>undefined\<close>, and \<open>Request.decode\<close> then throws a TypeError when it calls \<open>deserialize\<close> on
  that value, before any driver reads the body; no default driver takes its place. The
  protostuff id is such an id in the registry that leaves its entry commented out (when it
  differs from the three listed ids). The second registry lists the protostuff module, and
  there the protostuff id resolves to that module.
\<close>

theorem unregistered_id_decode_fails:
  assumes "12 \<le> length buf"
  shows "(unat (buf ! 2) AND SERIALIZATION_MASK \<noteq> HESSIAN2_SERIALIZATION_ID ids
          \<and> unat (buf ! 2) AND SERIALIZATION_MASK \<noteq> PROTOBUF_JSON_SERIALIZATION_ID ids
          \<and> unat (buf ! 2) AND SERIALIZATION_MASK \<noteq> PROTOBUF_SERIALIZATION_ID ids
          \<longrightarrow> getSerializationById ids m (unat (buf ! 2) AND SERIALIZATION_MASK) = None
            \<and> Request_decode handleLong ToString C (getSerializationById ids m) buf opts
                = Inl (TypeError ''Cannot read properties of undefined (reading deserialize)''))
       \<and> (unat (buf ! 2) AND SERIALIZATION_MASK \<noteq> HESSIAN2_SERIALIZATION_ID ids
          \<and> unat (buf ! 2) AND SERIALIZATION_MASK \<noteq> PROTOBUF_JSON_SERIALIZATION_ID ids
          \<and> unat (buf ! 2) AND SERIALIZATION_MASK \<noteq> PROTOBUF_SERIALIZATION_ID ids
          \<and> unat (buf ! 2) AND SERIALIZATION_MASK \<noteq> PROTOSTUFF_SERIALIZATION_ID ids
          \<longrightarrow> getSerializationById_protostuff ids m ps (unat (buf ! 2) AND SERIALIZATION_MASK) = None
            \<and> Request_decode handleLong ToString C (getSerializationById_protostuff ids m ps) buf opts
                = Inl (TypeError ''Cannot read properties of undefined (reading deserialize)''))
       \<and> getSerializationById_protostuff ids m ps (PROTOSTUFF_SERIALIZATION_ID ids) = Some ps"
proof (intro conjI impI)
  assume a: "unat (buf ! 2) AND SERIALIZATION_MASK \<noteq> HESSIAN2_SERIALIZATION_ID ids
          \<and> unat (buf ! 2) AND SERIALIZATION_MASK \<noteq> PROTOBUF_JSON_SERIALIZATION_ID ids
          \<and> unat (buf ! 2) AND SERIALIZATION_MASK \<noteq> PROTOBUF_SERIALIZATION_ID ids"
  then show n: "getSerializationById ids m (unat (buf ! 2) AND SERIALIZATION_MASK) = None"
    by (simp add: getSerializationById_def lookup_None idToSerializations_def)
  show "Request_decode handleLong ToString C (getSerializationById ids m) buf opts
                = Inl (TypeError ''Cannot read properties of undefined (reading deserialize)'')"
    by (rule decode_unresolved [where byId = "getSerializationById ids m", OF assms n])
next
  assume a: "unat (buf ! 2) AND SERIALIZATION_MASK \<noteq> HESSIAN2_SERIALIZATION_ID ids
          \<and> unat (buf ! 2) AND SERIALIZATION_MASK \<noteq> PROTOBUF_JSON_SERIALIZATION_ID ids
          \<and> unat (buf ! 2) AND SERIALIZATION_MASK \<noteq> PROTOBUF_SERIALIZATION_ID ids
          \<and> unat (buf ! 2) AND SERIALIZATION_MASK \<noteq> PROTOSTUFF_SERIALIZATION_ID ids"
  then show n: "getSerializationById_protostuff ids m ps (unat (buf ! 2) AND SERIALIZATION_MASK) = None"
    by (simp add: getSerializationById_protostuff_def lookup_None idToSerializations_protostuff_def)
  show "Request_decode handleLong ToString C (getSerializationById_protostuff ids m ps) buf opts
                = Inl (TypeError ''Cannot read properties of undefined (reading deserialize)'')"
    by (rule decode_unresolved [where byId = "getSerializationById_protostuff ids m ps", OF assms n])
next
  show "getSerializationById_protostuff ids m ps (PROTOSTUFF_SERIALIZATION_ID ids) = Some ps"
    by (simp add: getSerializationById_protostuff_def lookup_def idToSerializations_protostuff_def)
qed

theorem unregistered_id_decode_fails_witness:
  "Request_decode (\<lambda>l. l) (\<lambda>v. ''?'')
     \<lparr>DEFAULT_REMOTING_SERIALIZATION = ''hessian2'', DUBBO_VERSION_KEY = ''dubbo'',
      PATH_KEY = ''path'', VERSION_KEY = ''version''\<rparr>
     (getSerializationById
        \<lparr>HESSIAN2_SERIALIZATION_ID = 2, PROTOSTUFF_SERIALIZATION_ID = 12,
         PROTOBUF_JSON_SERIALIZATION_ID = 21, PROTOBUF_SERIALIZATION_ID = 22\<rparr>
        \<lparr>hessian = scripted [JNull], protobuf_json = scripted [JNull],
         protobuf = scripted [JNull]\<rparr>)
     [0xda, 0xbb, 0xcc, 0, 0, 0, 0, 0, 0, 0, 0, 1, 0, 0, 0, 0]
     \<lparr>proto = None :: unit option, channel = JUndefined, codecType = None,
      classMap = JUndefined, options = None\<rparr>
   = Inl (TypeError ''Cannot read properties of undefined (reading deserialize)'')"
proof -
  have h: "12 \<le> length [0xda, 0xbb, 0xcc, 0, 0, 0, 0, 0, 0, 0, 0, 1, 0, 0, 0, 0 :: 8 word]"
    by simp
  have s: "unat ([0xda, 0xbb, 0xcc, 0, 0, 0, 0, 0, 0, 0, 0, 1, 0, 0, 0, 0 :: 8 word] ! 2)
             AND SERIALIZATION_MASK = 12"
    by (simp add: SERIALIZATION_MASK_def)
  show ?thesis
    using unregistered_id_decode_fails [OF h,
        where ids = "\<lparr>HESSIAN2_SERIALIZATION_ID = 2, PROTOSTUFF_SERIALIZATION_ID = 12,
         PROTOBUF_JSON_SERIALIZATION_ID = 21, PROTOBUF_SERIALIZATION_ID = 22\<rparr>"
        and m = "\<lparr>hessian = scripted [JNull], protobuf_json = scripted [JNull],
         protobuf = scripted [JNull]\<rparr>"
        and ps = "scripted [JNull]"
        and handleLong = "\<lambda>l. l" and ToString = "\<lambda>v. ''?''"
        and C = "\<lparr>DEFAULT_REMOTING_SERIALIZATION = ''hessian2'', DUBBO_VERSION_KEY = ''dubbo'',
           PATH_KEY = ''path'', VERSION_KEY = ''version''\<rparr>"
        and opts = "\<lparr>proto = None :: unit option, channel = JUndefined, codecType = None,
           classMap = JUndefined, options = None\<rparr>"]
    unfolding s by simp
qed

theorem protostuff_id_resolves:
  "getSerializationById_protostuff
     \<lparr>HESSIAN2_SERIALIZATION_ID = 2, PROTOSTUFF_SERIALIZATION_ID = 12,
      PROTOBUF_JSON_SERIALIZATION_ID = 21, PROTOBUF_SERIALIZATION_ID = 22\<rparr>
     \<lparr>hessian = ''hessian'', protobuf_json = ''protobuf-json'', protobuf = ''protobuf''\<rparr>
     ''protostuff'' 12 = Some ''protostuff''"
  by (simp add: getSerializationById_protostuff_def lookup_def idToSerializations_protostuff_def)

subsection \<open>Decoding a body\<close>






subsection \<open>The order of body writes\<close>

lemma perform_append:
  "perform drv opts (cs @ ds) out = andThen (perform drv opts cs out) (perform drv opts ds)"
proof (induction cs arbitrary: out)
  case Nil
  show ?case by (simp add: andThen_def)
next
  case (Cons c cs)
  show ?case by (cases c) (simp_all add: Cons.IH andThen_def split: sum.splits)
qed

lemma writeArgs_perform:
  "writeArgs drv cm opts as i types out =
     perform drv opts
       (map (\<lambda>k. WriteObject (js_nth as (i + k)) cm (Some (types ! k))) [0..<length types]) out"
proof (induction types arbitrary: i out)
  case Nil
  show ?case by simp
next
  case (Cons t ts)
  have u: "[0..<length (t # ts)] = 0 # map Suc [0..<length ts]"
    by (simp add: upt_conv_Cons map_Suc_upt del: upt_Suc)
  have r: "writeArgs drv cm opts as (Suc i) ts =
        perform drv opts
          (map (\<lambda>k. WriteObject (js_nth as (Suc i + k)) cm (Some (ts ! k))) [0..<length ts])"
    by (rule ext) (rule Cons.IH)
  show ?case
    unfolding u by (simp add: r comp_def)
qed

lemma argumentCalls_zip:
  assumes "length types = length as"
  shows "argumentCalls cm as types = map (\<lambda>(a, t). WriteObject a cm (Some t)) (zip as types)"
proof (rule nth_equalityI)
  show "length (argumentCalls cm as types)
          = length (map (\<lambda>(a, t). WriteObject a cm (Some t)) (zip as types))"
    using assms by (simp add: argumentCalls_def)
next
  fix i
  assume "i < length (argumentCalls cm as types)"
  then have i: "i < length types" by (simp add: argumentCalls_def)
  then show "argumentCalls cm as types ! i
               = map (\<lambda>(a, t). WriteObject a cm (Some t)) (zip as types) ! i"
    using assms by (simp add: argumentCalls_def js_nth_def)
qed

lemma encodeBody_calls:
  assumes "data req = PInvocation invo"
    and "getJavaArgsDesc (args invo) = Inr desc"
    and "desc2classArray desc = Inr types"
  shows "encodeBody C drv req opts out =
           perform drv opts
             ([WriteUTF (js_or (get_prop (JObject (attachments invo)) (DUBBO_VERSION_KEY C))
                        (JStr ''2.5.3'')),
               WriteUTF (get_prop (JObject (attachments invo)) (PATH_KEY C)),
               WriteUTF (js_or (get_prop (JObject (attachments invo)) (VERSION_KEY C))
                        (JStr ''0.0.0'')),
               WriteUTF (JStr (methodName invo)),
               WriteUTF (JStr desc)]
              @ argumentCalls (classMap opts) (args invo) types
              @ [WriteObject (JObject (attachments invo)) (classMap opts) (Some ''HashMap'')]) out"
  using assms
  by (simp add: encodeBody_def perform_append writeArgs_perform
        argumentCalls_def [symmetric] DUBBO_VERSION_def andThen_def split: sum.splits)

text \<open>
  The calls of the body part of \<open>Request.encode\<close> for an Invocation, in their order:
  \<open>writeUTF\<close> of the protocol version attachment or else \<open>'2.5.3'\<close>, \<open>writeUTF\<close> of the path
  attachment, \<open>writeUTF\<close> of the version attachment or else \<open>'0.0.0'\<close>, \<open>writeUTF\<close> of the
  method name; then the descriptor of the arguments is computed and written with \<open>writeUTF\<close>,
  and read back as the type list; then one \<open>writeObject\<close> per entry of the type list, with
  argument \<open>i\<close> under type tag \<open>i\<close>, and last \<open>writeObject\<close> of the whole attachment object
  under \<open>'HashMap'\<close>. When \<open>getJavaArgsDesc\<close> throws, encoding ends with its error after the
  first four calls, and when \<open>desc2classArray\<close> throws, after the fifth. Every packet that
  \<open>encode\<close> returns was built by the whole sequence, run on the session that holds the
  header.
\<close>

lemma encode_body_order:
  assumes "data req = PInvocation invo"
  shows "(\<forall>desc types.
            getJavaArgsDesc (args invo) = Inr desc \<and> desc2classArray desc = Inr types \<longrightarrow>
            encodeBody C drv req opts out =
              perform drv opts
                ([WriteUTF (js_or (get_prop (JObject (attachments invo)) (DUBBO_VERSION_KEY C))
                           (JStr ''2.5.3'')),
                  WriteUTF (get_prop (JObject (attachments invo)) (PATH_KEY C)),
                  WriteUTF (js_or (get_prop (JObject (attachments invo)) (VERSION_KEY C))
                           (JStr ''0.0.0'')),
                  WriteUTF (JStr (methodName invo)),
                  WriteUTF (JStr desc)]
                 @ argumentCalls (classMap opts) (args invo) types
                 @ [WriteObject (JObject (attachments invo)) (classMap opts) (Some ''HashMap'')]) out
            \<and> (length types = length (args invo) \<longrightarrow>
                 argumentCalls (classMap opts) (args invo) types
                   = map (\<lambda>(a, t). WriteObject a (classMap opts) (Some t))
                       (zip (args invo) types)))
       \<and> (\<forall>desc e.
            getJavaArgsDesc (args invo) = Inr desc \<and> desc2classArray desc = Inl e \<longrightarrow>
            encodeBody C drv req opts out =
              andThen (perform drv opts
                ([WriteUTF (js_or (get_prop (JObject (attachments invo)) (DUBBO_VERSION_KEY C))
                           (JStr ''2.5.3'')),
                  WriteUTF (get_prop (JObject (attachments invo)) (PATH_KEY C)),
                  WriteUTF (js_or (get_prop (JObject (attachments invo)) (VERSION_KEY C))
                           (JStr ''0.0.0'')),
                  WriteUTF (JStr (methodName invo)),
                  WriteUTF (JStr desc)]) out)
                (\<lambda>written. Inl e))
       \<and> (\<forall>e.
            getJavaArgsDesc (args invo) = Inl e \<longrightarrow>
            encodeBody C drv req opts out =
              andThen (perform drv opts
                ([WriteUTF (js_or (get_prop (JObject (attachments invo)) (DUBBO_VERSION_KEY C))
                           (JStr ''2.5.3'')),
                  WriteUTF (get_prop (JObject (attachments invo)) (PATH_KEY C)),
                  WriteUTF (js_or (get_prop (JObject (attachments invo)) (VERSION_KEY C))
                           (JStr ''0.0.0'')),
                  WriteUTF (JStr (methodName invo))]) out)
                (\<lambda>written. Inl e))
       \<and> (\<forall>buf.
            Request_encode C byName req opts = Inr buf \<longrightarrow>
            (\<exists>d desc types fin.
               byName (orDefault (codecType opts) (DEFAULT_REMOTING_SERIALIZATION C)) = Some d
             \<and> getJavaArgsDesc (args invo) = Inr desc \<and> desc2classArray desc = Inr types
             \<and> perform d opts
                  ([WriteUTF (js_or (get_prop (JObject (attachments invo)) (DUBBO_VERSION_KEY C))
                             (JStr ''2.5.3'')),
                    WriteUTF (get_prop (JObject (attachments invo)) (PATH_KEY C)),
                    WriteUTF (js_or (get_prop (JObject (attachments invo)) (VERSION_KEY C))
                             (JStr ''0.0.0'')),
                    WriteUTF (JStr (methodName invo)),
                    WriteUTF (JStr desc)]
                   @ argumentCalls (classMap opts) (args invo) types
                   @ [WriteObject (JObject (attachments invo)) (classMap opts) (Some ''HashMap'')])
                  (bytes_update d (encodeHeader (contentTypeId d) req) (serialize d))
                 = Inr fin))"
proof (intro conjI allI impI)
  fix desc types
  assume a: "getJavaArgsDesc (args invo) = Inr desc \<and> desc2classArray desc = Inr types"
  show "encodeBody C drv req opts out =
              perform drv opts
                ([WriteUTF (js_or (get_prop (JObject (attachments invo)) (DUBBO_VERSION_KEY C))
                           (JStr ''2.5.3'')),
                  WriteUTF (get_prop (JObject (attachments invo)) (PATH_KEY C)),
                  WriteUTF (js_or (get_prop (JObject (attachments invo)) (VERSION_KEY C))
                           (JStr ''0.0.0'')),
                  WriteUTF (JStr (methodName invo)),
                  WriteUTF (JStr desc)]
                 @ argumentCalls (classMap opts) (args invo) types
                 @ [WriteObject (JObject (attachments invo)) (classMap opts) (Some ''HashMap'')]) out"
    by (rule encodeBody_calls [OF assms conjunct1 [OF a] conjunct2 [OF a]])
  assume "length types = length (args invo)"
  then show "argumentCalls (classMap opts) (args invo) types
                   = map (\<lambda>(a, t). WriteObject a (classMap opts) (Some t))
                       (zip (args invo) types)"
    by (rule argumentCalls_zip)
next
  fix desc e
  assume "getJavaArgsDesc (args invo) = Inr desc \<and> desc2classArray desc = Inl e"
  with assms show "encodeBody C drv req opts out =
              andThen (perform drv opts
                ([WriteUTF (js_or (get_prop (JObject (attachments invo)) (DUBBO_VERSION_KEY C))
                           (JStr ''2.5.3'')),
                  WriteUTF (get_prop (JObject (attachments invo)) (PATH_KEY C)),
                  WriteUTF (js_or (get_prop (JObject (attachments invo)) (VERSION_KEY C))
                           (JStr ''0.0.0'')),
                  WriteUTF (JStr (methodName invo)),
                  WriteUTF (JStr desc)]) out)
                (\<lambda>written. Inl e)"
    by (simp add: encodeBody_def DUBBO_VERSION_def andThen_def split: sum.splits)
next
  fix e
  assume "getJavaArgsDesc (args invo) = Inl e"
  with assms show "encodeBody C drv req opts out =
              andThen (perform drv opts
                ([WriteUTF (js_or (get_prop (JObject (attachments invo)) (DUBBO_VERSION_KEY C))
                           (JStr ''2.5.3'')),
                  WriteUTF (get_prop (JObject (attachments invo)) (PATH_KEY C)),
                  WriteUTF (js_or (get_prop (JObject (attachments invo)) (VERSION_KEY C))
                           (JStr ''0.0.0'')),
                  WriteUTF (JStr (methodName invo))]) out)
                (\<lambda>written. Inl e)"
    by (simp add: encodeBody_def DUBBO_VERSION_def andThen_def split: sum.splits)
next
  fix buf
  assume e: "Request_encode C byName req opts = Inr buf"
  then obtain d where d: "byName (orDefault (codecType opts) (DEFAULT_REMOTING_SERIALIZATION C))
                            = Some d"
    unfolding Request_encode_def by (auto split: option.splits)
  define out0 where "out0 = bytes_update d (encodeHeader (contentTypeId d) req) (serialize d)"
  from e d obtain fin where b: "encodeBody C d req opts out0 = Inr fin"
    unfolding Request_encode_def out0_def Let_def by (auto elim!: andThenE)
  from b assms obtain desc where g: "getJavaArgsDesc (args invo) = Inr desc"
    unfolding encodeBody_def by (cases "getJavaArgsDesc (args invo)")
      (auto simp add: andThen_def split: sum.splits)
  from b assms g obtain types where t: "desc2classArray desc = Inr types"
    unfolding encodeBody_def by (cases "desc2classArray desc")
      (auto simp add: andThen_def split: sum.splits)
  from b have "perform d opts
                  ([WriteUTF (js_or (get_prop (JObject (attachments invo)) (DUBBO_VERSION_KEY C))
                             (JStr ''2.5.3'')),
                    WriteUTF (get_prop (JObject (attachments invo)) (PATH_KEY C)),
                    WriteUTF (js_or (get_prop (JObject (attachments invo)) (VERSION_KEY C))
                             (JStr ''0.0.0'')),
                    WriteUTF (JStr (methodName invo)),
                    WriteUTF (JStr desc)]
                   @ argumentCalls (classMap opts) (args invo) types
                   @ [WriteObject (JObject (attachments invo)) (classMap opts) (Some ''HashMap'')]) out0 = Inr fin"
    unfolding encodeBody_calls [OF assms g t] .
  with d g t show "\<exists>d desc types fin.
               byName (orDefault (codecType opts) (DEFAULT_REMOTING_SERIALIZATION C)) = Some d
             \<and> getJavaArgsDesc (args invo) = Inr desc \<and> desc2classArray desc = Inr types
             \<and> perform d opts
                  ([WriteUTF (js_or (get_prop (JObject (attachments invo)) (DUBBO_VERSION_KEY C))
                             (JStr ''2.5.3'')),
                    WriteUTF (get_prop (JObject (attachments invo)) (PATH_KEY C)),
                    WriteUTF (js_or (get_prop (JObject (attachments invo)) (VERSION_KEY C))
                             (JStr ''0.0.0'')),
                    WriteUTF (JStr (methodName invo)),
                    WriteUTF (JStr desc)]
                   @ argumentCalls (classMap opts) (args invo) types
                   @ [WriteObject (JObject (attachments invo)) (classMap opts) (Some ''HashMap'')])
                  (bytes_update d (encodeHeader (contentTypeId d) req) (serialize d))
                 = Inr fin"
    unfolding out0_def by blast
qed

lemma encode_body_order_example:
  "encodeBody exampleConstants recorder sayHello (noOptions :: unit call_options) [] =
     Inr [WriteUTF (JStr ''2.5.3''), WriteUTF (JStr ''com.example.Greeter''),
          WriteUTF (JStr ''0.0.0''), WriteUTF (JStr ''sayHello''),
          WriteUTF (JStr ''Ljava/lang/String;''),
          WriteObject (JStr ''world'') JUndefined (Some ''java.lang.String''),
          WriteObject (JObject [(''path'', JStr ''com.example.Greeter'')]) JUndefined
            (Some ''HashMap'')]"
proof -
  have a: "data sayHello = PInvocation \<lparr>methodName = ''sayHello'', args = [JStr ''world''],
         attachments = [(''path'', JStr ''com.example.Greeter'')]\<rparr>"
    by (simp add: sayHello_def)
  have b: "getJavaArgsDesc (args \<lparr>methodName = ''sayHello'', args = [JStr ''world''],
         attachments = [(''path'', JStr ''com.example.Greeter'')]\<rparr>) = Inr ''Ljava/lang/String;''"
    by simp
  have c: "desc2classArray ''Ljava/lang/String;'' = Inr [''java.lang.String'']"
    by (simp add: desc2classArray_def classEntry_def javaTypeOf_def slashes2dots_def)
  note t = encode_body_order [OF a, where C = exampleConstants
        and drv = "recorder :: (write_call list, unit) output_driver"
        and byName = "\<lambda>n. Some (recorder :: (write_call list, unit) output_driver)"
        and opts = "noOptions :: unit call_options" and out = "[]",
        THEN conjunct1, rule_format, OF conjI [OF b c], THEN conjunct1]
  show ?thesis
    unfolding t
    by (simp add: argumentCalls_def js_nth_def recorder_def andThen_def exampleConstants_def
          noOptions_def get_prop_def js_or_def)
qed

text \<open>
  C8. An Invocation should have all its body fields written in the fixed order, each argument
  and the attachment object among them. For an invocation with one argument tagged with a
  two-dimensional array class, \<open>{$class: '[[int', $: []}\<close>, \<open>Request.encode\<close> writes the first
  five fields, the descriptor \<open>'[[I'\<close> the fifth, and then throws in \<open>desc2classArray\<close>: no
  argument and no attachment object is written and no packet is returned. The driver here
  accepts every write.
\<close>

theorem nested_array_argument_stops_encode:
  "getJavaArgsDesc [JObject [(''$class'', JStr ''[[int''), (''$'', JArray [])]] = Inr ''[[I''
   \<and> perform (recorder :: (write_call list, unit) output_driver) noOptions
         [WriteUTF (JStr ''2.5.3''), WriteUTF (JStr ''com.example.Matrix''),
          WriteUTF (JStr ''0.0.0''), WriteUTF (JStr ''sum''), WriteUTF (JStr ''[[I'')] []
       = Inr [WriteUTF (JStr ''2.5.3''), WriteUTF (JStr ''com.example.Matrix''),
              WriteUTF (JStr ''0.0.0''), WriteUTF (JStr ''sum''), WriteUTF (JStr ''[[I'')]
   \<and> Request_encode exampleConstants
       (\<lambda>n. Some (recorder :: (write_call list, unit) output_driver))
       \<lparr>id_req = 1, version = ''2.0.0'', isTwoWay = True, isEvent = False, isBroken = False,
        data = PInvocation
          \<lparr>methodName = ''sum'',
           args = [JObject [(''$class'', JStr ''[[int''), (''$'', JArray [])]],
           attachments = [(''path'', JStr ''com.example.Matrix'')]\<rparr>\<rparr>
       noOptions
     = Inl (Error ''[double-remoting] unknown class type => ['')"
  by (simp add: Request_encode_def orDefault_def noOptions_def exampleConstants_def recorder_def
        encodeBody_def andThen_def Let_def has_def taggedClassDesc_def get_prop_def js_or_def
        primitiveMap_def desc2classArray_def classEntry_def javaTypeOf_def unknownClassType_def
        DUBBO_VERSION_def)

subsection \<open>The frame header of an encoded packet\<close>

lemma headed_put: "headed h b \<Longrightarrow> headed h (put src b)"
  by (auto simp add: headed_def put_def write_at_def)

lemma headed_header:
  "headed (take 12 (bb_bytes (encodeHeader cid req ByteBuffer_new)))
     (encodeHeader cid req ByteBuffer_new)"
  by (simp add: headed_def header_offset) (simp add: header_bytes int32BE_def)

lemma perform_headed:
  assumes k: "keepsHeader h drv opts"
  shows "perform drv opts cs out = Inr out' \<Longrightarrow> headed h (bytes_of drv out)
           \<Longrightarrow> headed h (bytes_of drv out')"
proof (induction cs arbitrary: out)
  case Nil
  then show ?case by simp
next
  case (Cons c cs)
  show ?case
  proof (cases c)
    case (WriteUTF v)
    with Cons.prems(1) obtain mid where m: "writeUTF drv v opts out = Inr mid"
      and r: "perform drv opts cs mid = Inr out'"
      by (auto elim!: andThenE)
    from k m Cons.prems(2) have "headed h (bytes_of drv mid)"
      unfolding keepsHeader_def by blast
    from Cons.IH [OF r this] show ?thesis .
  next
    case (WriteObject v cm t)
    with Cons.prems(1) obtain mid where m: "writeObject drv v cm t opts out = Inr mid"
      and r: "perform drv opts cs mid = Inr out'"
      by (auto elim!: andThenE)
    from k m Cons.prems(2) have "headed h (bytes_of drv mid)"
      unfolding keepsHeader_def by blast
    from Cons.IH [OF r this] show ?thesis .
  qed
qed

lemma encodeBody_headed:
  assumes k: "keepsHeader h drv opts"
    and b: "encodeBody C drv req opts out = Inr out'"
    and i: "headed h (bytes_of drv out)"
  shows "headed h (bytes_of drv out')"
proof (cases "data req")
  case (PInvocation invo)
  from b PInvocation obtain desc where g: "getJavaArgsDesc (args invo) = Inr desc"
    unfolding encodeBody_def by (cases "getJavaArgsDesc (args invo)")
      (auto simp add: andThen_def split: sum.splits)
  from b PInvocation g obtain types where t: "desc2classArray desc = Inr types"
    unfolding encodeBody_def by (cases "desc2classArray desc")
      (auto simp add: andThen_def split: sum.splits)
  from b have "perform drv opts
             ([WriteUTF (js_or (get_prop (JObject (attachments invo)) (DUBBO_VERSION_KEY C))
                        (JStr ''2.5.3'')),
               WriteUTF (get_prop (JObject (attachments invo)) (PATH_KEY C)),
               WriteUTF (js_or (get_prop (JObject (attachments invo)) (VERSION_KEY C))
                        (JStr ''0.0.0'')),
               WriteUTF (JStr (methodName invo)),
               WriteUTF (JStr desc)]
              @ argumentCalls (classMap opts) (args invo) types
              @ [WriteObject (JObject (attachments invo)) (classMap opts) (Some ''HashMap'')]) out
            = Inr out'"
    unfolding encodeBody_calls [OF PInvocation g t] .
  from perform_headed [OF k this i] show ?thesis .
next
  case (PValue v)
  with b have "writeUTF drv (JStr ''H'') opts out = Inr out'
               \<or> writeObject drv v (classMap opts) (Some ''AnyVal'') opts out = Inr out'"
    by (simp add: encodeBody_def split: if_splits)
  then show ?thesis using k i unfolding keepsHeader_def by blast
qed

lemma encode_keeps_header:
  assumes n: "byName (orDefault (codecType opts) (DEFAULT_REMOTING_SERIALIZATION C)) = Some drv"
    and k: "keepsHeader (take 12 (bb_bytes (encodeHeader (contentTypeId drv) req ByteBuffer_new)))
              drv opts"
    and e: "Request_encode C byName req opts = Inr buf"
  shows "12 \<le> length buf
         \<and> take 12 buf = take 12 (bb_bytes (encodeHeader (contentTypeId drv) req ByteBuffer_new))"
proof -
  define h where "h = take 12 (bb_bytes (encodeHeader (contentTypeId drv) req ByteBuffer_new))"
  define out0 where "out0 = bytes_update drv (encodeHeader (contentTypeId drv) req) (serialize drv)"
  note k' = k [folded h_def]
  from k' have lens: "bytes_of drv (bytes_update drv f out) = f (bytes_of drv out)" for f out
    unfolding keepsHeader_def by blast
  from k' have new: "bytes_of drv (serialize drv) = ByteBuffer_new"
    unfolding keepsHeader_def by blast
  have i0: "headed h (bytes_of drv out0)"
    unfolding out0_def lens new h_def by (rule headed_header)
  from e n obtain out patched where b: "encodeBody C drv req opts out0 = Inr out"
    and w: "writeInt32BE
              (if codecType opts \<noteq> Some (DEFAULT_REMOTING_SERIALIZATION C) then len drv out
               else int (position (bytes_of drv out)) - int HEADER_LENGTH)
              12 (bb_bytes (bytes_of drv out)) = Inr patched"
    and g: "buf = get drv (bytes_update drv (\<lambda>b. b\<lparr>bb_bytes := patched\<rparr>) out)"
    unfolding Request_encode_def out0_def Let_def by (auto elim!: andThenE)
  from encodeBody_headed [OF k' b i0]
  have i1: "headed h (bytes_of drv out)" .
  from w obtain v where p: "patched = write_at 12 (int32BE v) (bb_bytes (bytes_of drv out))"
    by (auto simp add: writeInt32BE_def split: if_splits)
  have "headed h ((bytes_of drv out)\<lparr>bb_bytes := patched\<rparr>)"
    using i1 unfolding p by (auto simp add: headed_def write_at_def int32BE_def)
  then have "headed h (bytes_of drv (bytes_update drv (\<lambda>b. b\<lparr>bb_bytes := patched\<rparr>) out))"
    by (simp add: lens)
  with k' show ?thesis unfolding g h_def [symmetric] keepsHeader_def by blast
qed

lemma queue_bytes: "s_bytes (queue b c sess) = s_bytes sess"
  by (simp add: queue_def)

lemma writeObject_pb_bytes:
  "writeObject_pb v cm t opts sess = Inr sess' \<Longrightarrow> s_bytes sess' = s_bytes sess"
  unfolding writeObject_pb_def
  by (auto simp add: queue_bytes split: option.splits if_splits elim!: andThenE)

lemma writeObject_pbm_bytes:
  "writeObject_pbm P v cm t opts sess = Inr sess' \<Longrightarrow> s_bytes sess' = s_bytes sess"
  unfolding writeObject_pbm_def
  by (auto simp add: queue_bytes split: option.splits if_splits elim!: andThenE)

lemma writeObject_pbj_bytes:
  "writeObject_pbj P v cm t opts sess = Inr sess' \<Longrightarrow> s_bytes sess' = s_bytes sess"
  unfolding writeObject_pbj_def
  by (auto simp add: queue_bytes split: option.splits if_splits elim!: andThenE)

lemma writeUTF_raw_headed:
  "writeUTF_raw P v sess = Inr sess' \<Longrightarrow> headed h (s_bytes sess) \<Longrightarrow> headed h (s_bytes sess')"
  unfolding writeUTF_raw_def by (auto simp add: headed_put elim!: andThenE)

lemma get_pb_headed:
  "headed h (s_bytes sess) \<Longrightarrow> 12 \<le> length (get_pb sess) \<and> take 12 (get_pb sess) = h"
  by (auto simp add: headed_def get_pb_def bb_get_def)

lemma keepsHeader_pb: "keepsHeader h (output_pb P ids c) opts"
  unfolding keepsHeader_def output_pb_def
  by (auto simp add: writeUTF_pb_def newSession_def get_pb_headed
        dest: writeObject_pb_bytes writeUTF_raw_headed split: if_splits)

lemma keepsHeader_pbm: "keepsHeader h (output_pbm P ids c) opts"
  unfolding keepsHeader_def output_pbm_def
  by (auto simp add: writeUTF_pbm_def newSession_def get_pb_headed
        dest: writeObject_pbm_bytes writeUTF_raw_headed split: if_splits)

lemma keepsHeader_pbj: "keepsHeader h (output_pbj P ids c) opts"
  unfolding keepsHeader_def output_pbj_def
  by (auto simp add: writeUTF_pbj_def newSession_def headed_def bb_get_def
        dest: writeObject_pbj_bytes split: if_splits)

lemma writeObject_jl_headed:
  "writeObject_jl P v cm t opts enc = Inr enc' \<Longrightarrow> headed h enc \<Longrightarrow> headed h enc'"
  unfolding writeObject_jl_def
  by (auto simp add: putRawString_def headed_put Let_def split: option.splits if_splits)

lemma bb_get_headed:
  "headed h b \<Longrightarrow> 12 \<le> length (bb_get (bb_offset b) b) \<and> take 12 (bb_get (bb_offset b) b) = h"
  by (auto simp add: headed_def bb_get_def)

lemma keepsHeader_jl: "keepsHeader h (output_jl P ids) opts"
  unfolding keepsHeader_def output_jl_def
  by (auto simp add: writeUTF_jl_def putRawString_val_def putRawString_def headed_put
        bb_get_headed dest: writeObject_jl_headed split: if_splits jsval.splits)

lemma decode_packetId:
  assumes "Request_decode handleLong ToString C byId buf opts0 = Inr p"
  shows "\<exists>l. readLong buf = Inr l \<and> packetId p = handleLong l"
proof -
  from assms obtain l where l: "readLong buf = Inr l"
    unfolding Request_decode_def by (elim andThenE)
  from assms l obtain drv where drv: "byId (unat (buf ! 2) AND SERIALIZATION_MASK) = Some drv"
    unfolding Request_decode_def by (auto simp add: andThen_def Let_def split: option.splits)
  from assms have "packetId p = handleLong l"
    unfolding Request_decode_def Let_def split_def
    by (simp only: l drv andThen_Inr_simp option.case)
       (auto elim!: andThenE split: if_splits jsval.splits)
  with l show ?thesis by blast
qed




lemma encoded_front:
  assumes "byName (orDefault (codecType opts) (DEFAULT_REMOTING_SERIALIZATION C)) = Some drv"
    and "keepsHeader (take 12 (bb_bytes (encodeHeader (contentTypeId drv) req ByteBuffer_new)))
              drv opts"
    and "Request_encode C byName req opts = Inr buf"
  shows "\<exists>rest. buf = [MAGIC_HIGH, MAGIC_LOW, of_nat (flagOf (contentTypeId drv) req), 0]
                    @ int32BE (ucast (drop_bit 32 (id_req req))) @ int32BE (ucast (id_req req))
                    @ rest"
proof -
  from encode_keeps_header [OF assms]
  have t: "take 12 buf = take 12 (bb_bytes (encodeHeader (contentTypeId drv) req ByteBuffer_new))"
    by blast
  have "buf = take 12 buf @ drop 12 buf" by simp
  then have "buf = take 12 (bb_bytes (encodeHeader (contentTypeId drv) req ByteBuffer_new))
               @ drop 12 buf"
    unfolding t .
  then have "buf = ([MAGIC_HIGH, MAGIC_LOW, of_nat (flagOf (contentTypeId drv) req), 0]
                    @ int32BE (ucast (drop_bit 32 (id_req req))) @ int32BE (ucast (id_req req)))
                    @ drop 12 buf"
    by (simp add: header_bytes int32BE_def)
  then show ?thesis by (intro exI [where x = "drop 12 buf"]) simp
qed

lemma source_encoded_front:
  assumes "(\<exists>drv. byName (orDefault (codecType opts) (DEFAULT_REMOTING_SERIALIZATION C)) = Some drv
             \<and> drv \<in> {output_pb P ids c, output_pbm P ids c, output_pbj P ids c}
             \<and> cid = contentTypeId drv
             \<and> Request_encode C byName req opts = Inr buf)
         \<or> (byNameJ (orDefault (codecType opts) (DEFAULT_REMOTING_SERIALIZATION C))
               = Some (output_jl P ids)
             \<and> cid = contentTypeId (output_jl P ids)
             \<and> Request_encode C byNameJ req opts = Inr buf)"
  shows "\<exists>rest. buf = [MAGIC_HIGH, MAGIC_LOW, of_nat (flagOf cid req), 0]
                    @ int32BE (ucast (drop_bit 32 (id_req req))) @ int32BE (ucast (id_req req))
                    @ rest"
  using assms
proof (elim disjE exE conjE)
  fix drv
  assume n: "byName (orDefault (codecType opts) (DEFAULT_REMOTING_SERIALIZATION C)) = Some drv"
    and d: "drv \<in> {output_pb P ids c, output_pbm P ids c, output_pbj P ids c}"
    and c: "cid = contentTypeId drv"
    and e: "Request_encode C byName req opts = Inr buf"
  from d have "keepsHeader (take 12 (bb_bytes (encodeHeader (contentTypeId drv) req ByteBuffer_new)))
              drv opts"
    using keepsHeader_pb keepsHeader_pbm keepsHeader_pbj by auto
  from encoded_front [OF n this e] show ?thesis unfolding c .
next
  assume n: "byNameJ (orDefault (codecType opts) (DEFAULT_REMOTING_SERIALIZATION C))
               = Some (output_jl P ids)"
    and c: "cid = contentTypeId (output_jl P ids)"
    and e: "Request_encode C byNameJ req opts = Inr buf"
  from encoded_front [OF n keepsHeader_jl e] show ?thesis unfolding c .
qed

text \<open>
  C3. The packet id survives the header. Whenever \<open>Request.encode\<close> returns a packet, with any
  of the drivers of the sources (the tagged-binary driver is not among them), the packet
  holds the id as two big-endian 32-bit halves, the high word at offset 4 and the low word at
  offset 8; the \<open>Long\<close> that \<open>Request.decode\<close> builds from \<open>readInt32BE(8)\<close> and
  \<open>readInt32BE(4)\<close> of that packet is exactly the id, as a two's-complement 64-bit value, for
  every id; and the \<open>packetId\<close> of every packet that \<open>Request.decode\<close> returns for it is what
  \<open>handleLong\<close> of hessian.js makes of that \<open>Long\<close>.
\<close>

theorem packet_id_roundtrip:
  assumes "(\<exists>drv. byName (orDefault (codecType opts) (DEFAULT_REMOTING_SERIALIZATION C)) = Some drv
             \<and> drv \<in> {output_pb P ids c, output_pbm P ids c, output_pbj P ids c}
             \<and> Request_encode C byName req opts = Inr buf)
         \<or> (byNameJ (orDefault (codecType opts) (DEFAULT_REMOTING_SERIALIZATION C))
               = Some (output_jl P ids)
             \<and> Request_encode C byNameJ req opts = Inr buf)"
  shows "take 4 (drop 4 buf) = int32BE (ucast (drop_bit 32 (id_req req)))
       \<and> take 4 (drop 8 buf) = int32BE (ucast (id_req req))
       \<and> readLong buf = Inr (id_req req)
       \<and> (\<forall>p. Request_decode handleLong ToString C' byId buf opts' = Inr p
              \<longrightarrow> packetId p = handleLong (id_req req))"
proof -
  from assms have "\<exists>cid.
           (\<exists>drv. byName (orDefault (codecType opts) (DEFAULT_REMOTING_SERIALIZATION C)) = Some drv
             \<and> drv \<in> {output_pb P ids c, output_pbm P ids c, output_pbj P ids c}
             \<and> cid = contentTypeId drv
             \<and> Request_encode C byName req opts = Inr buf)
         \<or> (byNameJ (orDefault (codecType opts) (DEFAULT_REMOTING_SERIALIZATION C))
               = Some (output_jl P ids)
             \<and> cid = contentTypeId (output_jl P ids)
             \<and> Request_encode C byNameJ req opts = Inr buf)"
    by blast
  then obtain cid where
         "(\<exists>drv. byName (orDefault (codecType opts) (DEFAULT_REMOTING_SERIALIZATION C)) = Some drv
             \<and> drv \<in> {output_pb P ids c, output_pbm P ids c, output_pbj P ids c}
             \<and> cid = contentTypeId drv
             \<and> Request_encode C byName req opts = Inr buf)
         \<or> (byNameJ (orDefault (codecType opts) (DEFAULT_REMOTING_SERIALIZATION C))
               = Some (output_jl P ids)
             \<and> cid = contentTypeId (output_jl P ids)
             \<and> Request_encode C byNameJ req opts = Inr buf)"
    ..
  from source_encoded_front [OF this] obtain rest where
    b: "buf = [MAGIC_HIGH, MAGIC_LOW, of_nat (flagOf cid req), 0]
              @ int32BE (ucast (drop_bit 32 (id_req req))) @ int32BE (ucast (id_req req))
              @ rest"
    by blast
  have h: "take 4 (drop 4 buf) = int32BE (ucast (drop_bit 32 (id_req req)))"
    and l: "take 4 (drop 8 buf) = int32BE (ucast (id_req req))"
    unfolding b by (simp_all add: int32BE_def)
  have r: "readLong buf = Inr (id_req req)"
    unfolding b
    by (simp add: readLong_def readInt32BE_def andThen_def int32BE_def be32_int32BE Long_halves)
  have "packetId p = handleLong (id_req req)"
    if "Request_decode handleLong ToString C' byId buf opts' = Inr p" for p
    using decode_packetId [OF that] r by auto
  with h l r show ?thesis by blast
qed

theorem packet_id_roundtrip_witness:
  "Request_encode exampleConstants
     (\<lambda>n. if n = ''protobuf-json'' then Some (output_jl examplePlatform exampleIds) else None)
     (heartbeat\<lparr>id_req := - 0x7fffffffffffffff\<rparr>) (noOptions\<lparr>codecType := Some ''protobuf-json''\<rparr>)
   = Inr [0xda, 0xbb, 0xf5, 0, 0x80, 0, 0, 0, 0, 0, 0, 1, 0, 0, 0, 17, 0x48]
   \<and> (\<exists>p. Request_decode (\<lambda>l. l) (\<lambda>v. ''?'') exampleConstants
              (\<lambda>i. if i = 21 then Some (scripted [JNull]) else None)
              [0xda, 0xbb, 0xf5, 0, 0x80, 0, 0, 0, 0, 0, 0, 1, 0, 0, 0, 17, 0x48]
              (noOptions :: unit call_options) = Inr p
          \<and> packetId p = - 0x7fffffffffffffff)"
proof -
  define buf :: bytes where
    "buf = [0xda, 0xbb, 0xf5, 0, 0x80, 0, 0, 0, 0, 0, 0, 1, 0, 0, 0, 17, 0x48]"
  define byName :: "string \<Rightarrow> (ByteBuffer, Root) output_driver option" where
    "byName = (\<lambda>n. if n = ''protobuf-json'' then Some (output_jl examplePlatform exampleIds)
                    else None)"
  have e: "Request_encode exampleConstants byName
             (heartbeat\<lparr>id_req := - 0x7fffffffffffffff\<rparr>)
             (noOptions\<lparr>codecType := Some ''protobuf-json''\<rparr>) = Inr buf"
    by (simp add: byName_def buf_def Request_encode_def orDefault_def noOptions_def
          exampleConstants_def output_jl_def
          header_bytes header_offset andThen_def encodeBody_def heartbeat_def writeUTF_jl_def
          putRawString_val_def putRawString_def put_def write_at_def string_bytes_def
          position_def HEADER_LENGTH_def writeInt32BE_def int32BE_def bb_get_def flagOf_def
          FLAG_REQUEST_def FLAG_TWOWAY_def FLAG_EVENT_def exampleIds_def MAGIC_HIGH_def
          MAGIC_LOW_def Let_def)
  have n: "byName (orDefault (codecType (noOptions\<lparr>codecType := Some ''protobuf-json''\<rparr>
                     :: Root call_options))
             (DEFAULT_REMOTING_SERIALIZATION exampleConstants))
           = Some (output_jl examplePlatform exampleIds)"
    by (simp add: byName_def orDefault_def)
  obtain p where d: "Request_decode (\<lambda>l. l) (\<lambda>v. ''?'') exampleConstants
              (\<lambda>i. if i = 21 then Some (scripted [JNull]) else None) buf
              (noOptions :: unit call_options) = Inr (p :: 64 word Packet)"
    by (simp add: buf_def Request_decode_def readLong_def readInt32BE_def andThen_def
          scripted_def nextValue_def Let_def SERIALIZATION_MASK_def FLAG_EVENT_def)
  from packet_id_roundtrip [where byNameJ = byName and P = examplePlatform and ids = exampleIds
      and C = exampleConstants and buf = buf
      and req = "heartbeat\<lparr>id_req := - 0x7fffffffffffffff\<rparr>"
      and opts = "noOptions\<lparr>codecType := Some ''protobuf-json''\<rparr>"
      and handleLong = "\<lambda>l. l" and ToString = "\<lambda>v. ''?''" and C' = exampleConstants
      and byId = "\<lambda>i. if i = 21 then Some (scripted [JNull]) else None"
      and opts' = "noOptions :: unit call_options"] n e d
  have "packetId p = id_req (heartbeat\<lparr>id_req := - 0x7fffffffffffffff\<rparr>)"
    by blast
  then have "packetId p = - 0x7fffffffffffffff" by simp
  with e d show ?thesis unfolding byName_def buf_def by blast
qed




subsection \<open>The body length field\<close>

lemma put_at_end:
  "bb_offset b = length (bb_bytes b) \<Longrightarrow>
     put src b = \<lparr>bb_bytes = bb_bytes b @ src, bb_offset = length (bb_bytes b) + length src\<rparr>"
  by (simp add: put_def write_at_def)

lemma raw_write:
  assumes "bb_offset (s_bytes sess) = length (bb_bytes (s_bytes sess))"
    and "length s = n" and "n < 126"
  shows "writeUTF_pb examplePlatform (JStr s) (noOptions\<lparr>codecType := Some ''protobuf''\<rparr>) sess
         = Inr \<lparr>s_bytes = \<lparr>bb_bytes = bb_bytes (s_bytes sess) @ [of_nat (2 + n), 0x0a, of_nat n]
                                         @ string_bytes s,
                            bb_offset = length (bb_bytes (s_bytes sess)) + (3 + n)\<rparr>,
                 encoder = \<lparr>w_len = w_len (encoder sess) + 4, w_queued = w_queued (encoder sess)\<rparr>,
                 caches = caches sess\<rparr>"
  using assms(2,3)
  by (simp add: writeUTF_pb_def writeUTF_raw_def noOptions_def examplePlatform_def andThen_def
        put_at_end [OF assms(1)] string_bytes_def)

text \<open>
  C2. The length field should hold the number of payload bytes after offset 16. The magic
  bytes are right, the length is not, in two of the drivers.
  \<^item> In the protobuf driver (\<open>lib/serialize/protobuf-json/index.js\<close>, lines 548 to 611) the raw
    \<open>writeUTF\<close> puts the delimited string into the header buffer and adds the constant 4 to
    \<open>encoder.len\<close>, whatever the size of the string. An invocation of \<open>sayHello\<close> on
    \<open>com.example.Greeter\<close> encoded with \<open>{codecType: 'protobuf'}\<close> has a payload of 70 bytes,
    the five delimited strings, and the field at offset 12 says 20.
  \<^item> In the protobuf-json module of the same file (lines 1 to 180) the header and the payload
    share one buffer and \<open>output.len\<close> is the position in it, header included, so the field is
    16 too large. A heartbeat encoded with \<open>{codecType: 'protobuf-json'}\<close>: the payload is the
    single byte \<open>'H'\<close>, and the field says 17.
\<close>

theorem length_field_differs_from_payload:
  "Request_encode exampleConstants
     (\<lambda>n. if n = ''protobuf'' then Some (output_pb examplePlatform exampleIds noCaches) else None)
     sayHello (noOptions\<lparr>codecType := Some ''protobuf''\<rparr>)
   = Inr ([0xda, 0xbb, 0xd6, 0, 0, 0, 0, 0, 0, 0, 0, 1, 0, 0, 0, 20]
          @ [7, 10, 5] @ string_bytes ''2.5.3''
          @ [21, 10, 19] @ string_bytes ''com.example.Greeter''
          @ [7, 10, 5] @ string_bytes ''0.0.0''
          @ [10, 10, 8] @ string_bytes ''sayHello''
          @ [20, 10, 18] @ string_bytes ''Ljava/lang/String;'')
   \<and> Request_encode exampleConstants
       (\<lambda>n. if n = ''protobuf-json'' then Some (output_jl examplePlatform exampleIds) else None)
       heartbeat (noOptions\<lparr>codecType := Some ''protobuf-json''\<rparr>)
     = Inr [0xda, 0xbb, 0xf5, 0, 0, 0, 0, 0, 0, 0, 0, 1, 0, 0, 0, 17, 0x48]"
proof (rule conjI)
  show "Request_encode exampleConstants
       (\<lambda>n. if n = ''protobuf-json'' then Some (output_jl examplePlatform exampleIds) else None)
       heartbeat (noOptions\<lparr>codecType := Some ''protobuf-json''\<rparr>)
     = Inr [0xda, 0xbb, 0xf5, 0, 0, 0, 0, 0, 0, 0, 0, 1, 0, 0, 0, 17, 0x48]"
    by (simp add: Request_encode_def orDefault_def noOptions_def exampleConstants_def output_jl_def
          header_bytes header_offset andThen_def encodeBody_def heartbeat_def writeUTF_jl_def
          putRawString_val_def putRawString_def put_def write_at_def string_bytes_def
          position_def HEADER_LENGTH_def writeInt32BE_def int32BE_def bb_get_def flagOf_def
          FLAG_REQUEST_def FLAG_TWOWAY_def FLAG_EVENT_def exampleIds_def MAGIC_HIGH_def
          MAGIC_LOW_def Let_def)
next
  show "Request_encode exampleConstants
     (\<lambda>n. if n = ''protobuf'' then Some (output_pb examplePlatform exampleIds noCaches) else None)
     sayHello (noOptions\<lparr>codecType := Some ''protobuf''\<rparr>)
   = Inr ([0xda, 0xbb, 0xd6, 0, 0, 0, 0, 0, 0, 0, 0, 1, 0, 0, 0, 20]
          @ [7, 10, 5] @ string_bytes ''2.5.3''
          @ [21, 10, 19] @ string_bytes ''com.example.Greeter''
          @ [7, 10, 5] @ string_bytes ''0.0.0''
          @ [10, 10, 8] @ string_bytes ''sayHello''
          @ [20, 10, 18] @ string_bytes ''Ljava/lang/String;'')"
  proof -
    define opts :: "Root call_options" where "opts = noOptions\<lparr>codecType := Some ''protobuf''\<rparr>"
    define drv where "drv = output_pb examplePlatform exampleIds noCaches"
    define h :: bytes where "h = [0xda, 0xbb, 0xd6, 0, 0, 0, 0, 0, 0, 0, 0, 1, 0, 0, 0, 0]"
    define b1 :: bytes where "b1 = [7, 10, 5] @ string_bytes ''2.5.3''"
    define b2 :: bytes where "b2 = [21, 10, 19] @ string_bytes ''com.example.Greeter''"
    define b3 :: bytes where "b3 = [7, 10, 5] @ string_bytes ''0.0.0''"
    define b4 :: bytes where "b4 = [10, 10, 8] @ string_bytes ''sayHello''"
    define b5 :: bytes where "b5 = [20, 10, 18] @ string_bytes ''Ljava/lang/String;''"
    have l: "length h = 16" "length b1 = 8" "length b2 = 22" "length b3 = 8" "length b4 = 11"
      "length b5 = 21"
      by (simp_all add: h_def b1_def b2_def b3_def b4_def b5_def string_bytes_def)
    have hb: "bb_bytes (encodeHeader 22 sayHello ByteBuffer_new) = h"
      by (simp add: header_bytes h_def sayHello_def flagOf_def FLAG_REQUEST_def FLAG_TWOWAY_def
            MAGIC_HIGH_def MAGIC_LOW_def int32BE_def)
    have s0: "bytes_update drv (encodeHeader (contentTypeId drv) sayHello) (serialize drv)
              = \<lparr>s_bytes = \<lparr>bb_bytes = h, bb_offset = 16\<rparr>,
                 encoder = \<lparr>w_len = 0, w_queued = []\<rparr>, caches = noCaches\<rparr>"
      using hb header_offset [of 22 sayHello]
      by (simp add: drv_def output_pb_def newSession_def exampleIds_def Writer_create_def)
    have noop: "writeObject drv v cm t opts sess = Inr sess" for v cm t sess
      by (simp add: drv_def output_pb_def writeObject_pb_def opts_def noOptions_def)
    have w: "writeUTF drv = writeUTF_pb examplePlatform"
      by (simp add: drv_def output_pb_def)
    have w1: "writeUTF drv (JStr ''2.5.3'') opts
                \<lparr>s_bytes = \<lparr>bb_bytes = h, bb_offset = 16\<rparr>,
                 encoder = \<lparr>w_len = 0, w_queued = []\<rparr>, caches = noCaches\<rparr>
              = Inr \<lparr>s_bytes = \<lparr>bb_bytes = h @ b1, bb_offset = 24\<rparr>,
                      encoder = \<lparr>w_len = 4, w_queued = []\<rparr>, caches = noCaches\<rparr>"
      unfolding w opts_def by (subst raw_write [where n = 5]) (simp_all add: l b1_def)
    have w2: "writeUTF drv (JStr ''com.example.Greeter'') opts
                \<lparr>s_bytes = \<lparr>bb_bytes = h @ b1, bb_offset = 24\<rparr>,
                 encoder = \<lparr>w_len = 4, w_queued = []\<rparr>, caches = noCaches\<rparr>
              = Inr \<lparr>s_bytes = \<lparr>bb_bytes = h @ b1 @ b2, bb_offset = 46\<rparr>,
                      encoder = \<lparr>w_len = 8, w_queued = []\<rparr>, caches = noCaches\<rparr>"
      unfolding w opts_def by (subst raw_write [where n = 19]) (simp_all add: l b2_def)
    have w3: "writeUTF drv (JStr ''0.0.0'') opts
                \<lparr>s_bytes = \<lparr>bb_bytes = h @ b1 @ b2, bb_offset = 46\<rparr>,
                 encoder = \<lparr>w_len = 8, w_queued = []\<rparr>, caches = noCaches\<rparr>
              = Inr \<lparr>s_bytes = \<lparr>bb_bytes = h @ b1 @ b2 @ b3, bb_offset = 54\<rparr>,
                      encoder = \<lparr>w_len = 12, w_queued = []\<rparr>, caches = noCaches\<rparr>"
      unfolding w opts_def by (subst raw_write [where n = 5]) (simp_all add: l b3_def)
    have w4: "writeUTF drv (JStr ''sayHello'') opts
                \<lparr>s_bytes = \<lparr>bb_bytes = h @ b1 @ b2 @ b3, bb_offset = 54\<rparr>,
                 encoder = \<lparr>w_len = 12, w_queued = []\<rparr>, caches = noCaches\<rparr>
              = Inr \<lparr>s_bytes = \<lparr>bb_bytes = h @ b1 @ b2 @ b3 @ b4, bb_offset = 65\<rparr>,
                      encoder = \<lparr>w_len = 16, w_queued = []\<rparr>, caches = noCaches\<rparr>"
      unfolding w opts_def by (subst raw_write [where n = 8]) (simp_all add: l b4_def)
    have w5: "writeUTF drv (JStr ''Ljava/lang/String;'') opts
                \<lparr>s_bytes = \<lparr>bb_bytes = h @ b1 @ b2 @ b3 @ b4, bb_offset = 65\<rparr>,
                 encoder = \<lparr>w_len = 16, w_queued = []\<rparr>, caches = noCaches\<rparr>
              = Inr \<lparr>s_bytes = \<lparr>bb_bytes = h @ b1 @ b2 @ b3 @ b4 @ b5, bb_offset = 86\<rparr>,
                      encoder = \<lparr>w_len = 20, w_queued = []\<rparr>, caches = noCaches\<rparr>"
      unfolding w opts_def by (subst raw_write [where n = 18]) (simp_all add: l b5_def)
    have d: "getJavaArgsDesc [JStr ''world''] = Inr ''Ljava/lang/String;''"
      and c: "desc2classArray ''Ljava/lang/String;'' = Inr [''java.lang.String'']"
      by (simp_all add: desc2classArray_def classEntry_def javaTypeOf_def slashes2dots_def)
    have a: "get_prop (JObject [(''path'', JStr ''com.example.Greeter'')]) ''dubbo'' = JUndefined"
      "get_prop (JObject [(''path'', JStr ''com.example.Greeter'')]) ''path''
         = JStr ''com.example.Greeter''"
      "get_prop (JObject [(''path'', JStr ''com.example.Greeter'')]) ''version'' = JUndefined"
      by (simp_all add: get_prop_def)
    have b: "encodeBody exampleConstants drv sayHello opts
               \<lparr>s_bytes = \<lparr>bb_bytes = h, bb_offset = 16\<rparr>,
                encoder = \<lparr>w_len = 0, w_queued = []\<rparr>, caches = noCaches\<rparr>
             = Inr \<lparr>s_bytes = \<lparr>bb_bytes = h @ b1 @ b2 @ b3 @ b4 @ b5, bb_offset = 86\<rparr>,
                     encoder = \<lparr>w_len = 20, w_queued = []\<rparr>, caches = noCaches\<rparr>"
      unfolding encodeBody_def
      by (simp add: sayHello_def exampleConstants_def a js_or_def DUBBO_VERSION_def
            w1 w2 w3 w4 w5 d c noop andThen_def)
    have p: "writeInt32BE 20 12 (h @ b1 @ b2 @ b3 @ b4 @ b5)
             = Inr ([0xda, 0xbb, 0xd6, 0, 0, 0, 0, 0, 0, 0, 0, 1, 0, 0, 0, 20]
                    @ b1 @ b2 @ b3 @ b4 @ b5)"
      by (simp add: writeInt32BE_def write_at_def int32BE_def h_def l)
    have g: "get drv \<lparr>s_bytes = \<lparr>bb_bytes = x, bb_offset = 86\<rparr>,
                       encoder = \<lparr>w_len = 20, w_queued = []\<rparr>, caches = noCaches\<rparr> = take 86 x"
      for x
      by (simp add: drv_def output_pb_def get_pb_def bb_get_def)
    have u: "bytes_update drv f sess = sess\<lparr>s_bytes := f (s_bytes sess)\<rparr>"
      and bo: "bytes_of drv = s_bytes" and ln: "len drv sess = int (w_len (encoder sess))"
      for f sess
      by (simp_all add: drv_def output_pb_def)
    have "Request_encode exampleConstants (\<lambda>n. if n = ''protobuf'' then Some drv else None)
            sayHello opts
          = Inr ([0xda, 0xbb, 0xd6, 0, 0, 0, 0, 0, 0, 0, 0, 1, 0, 0, 0, 20]
                    @ b1 @ b2 @ b3 @ b4 @ b5)"
      unfolding Request_encode_def
      by (simp add: orDefault_def opts_def [symmetric] s0 b Let_def andThen_def)
         (simp add: opts_def noOptions_def exampleConstants_def u bo ln p g l)
    then show ?thesis
      unfolding opts_def drv_def b1_def b2_def b3_def b4_def b5_def by simp
  qed
qed

subsection \<open>Attachments on the wire\<close>














text \<open>
  C10. In the three modules that project the attachment object (jl, pb and pbj) the wire field
  \<open>interface\<close> is \<open>v.path || ''\<close>, the same value as the wire field \<open>path\<close>, and the
  attachment's own \<open>interface\<close> entry is never read: writing an object and writing the same
  object with any other \<open>interface\<close> value give the same result.
\<close>

theorem interface_is_path:
  "get_prop (attachmentProjection v) ''interface'' = js_or (get_prop v ''path'') (JStr [])
   \<and> get_prop (attachmentProjection v) ''interface'' = get_prop (attachmentProjection v) ''path''
   \<and> writeObject_jl P (JObject (set_prop ps ''interface'' x)) cm (Some ''HashMap'') opts0 enc
       = writeObject_jl P (JObject ps) cm (Some ''HashMap'') opts0 enc
   \<and> writeObject_pb (JObject (set_prop ps ''interface'' x)) cm (Some ''HashMap'') opts0 sess
       = writeObject_pb (JObject ps) cm (Some ''HashMap'') opts0 sess
   \<and> writeObject_pbj P (JObject (set_prop ps ''interface'' x)) cm (Some ''HashMap'') opts0 sess
       = writeObject_pbj P (JObject ps) cm (Some ''HashMap'') opts0 sess"
proof -
  have g: "get_prop (JObject (set_prop ps ''interface'' x)) k = get_prop (JObject ps) k"
    if "k \<noteq> ''interface''" for k
    using that by (simp add: get_prop_set_prop)
  have c: "get_prop (JObject (set_prop ps ''interface'' x)) ''$class''
             = get_prop (JObject ps) ''$class''"
    and d: "get_prop (JObject (set_prop ps ''interface'' x)) ''$'' = get_prop (JObject ps) ''$''"
    by (simp_all add: g)
  have h: "(Some ''HashMap'' = Some ''HashMap'') = True"
    by simp
  have t: "truthy (JObject (set_prop ps ''interface'' x)) = truthy (JObject ps)"
    by simp
  have p: "attachmentProjection (JObject (set_prop ps ''interface'' x))
             = attachmentProjection (JObject ps)"
    by (simp add: attachmentProjection_def g)
  have i: "get_prop (attachmentProjection v) ''interface'' = js_or (get_prop v ''path'') (JStr [])"
    and q: "get_prop (attachmentProjection v) ''path'' = js_or (get_prop v ''path'') (JStr [])"
    by (simp_all add: attachmentProjection_def get_prop_def)
  have jl: "writeObject_jl P (JObject (set_prop ps ''interface'' x)) cm (Some ''HashMap'') opts0 enc
              = writeObject_jl P (JObject ps) cm (Some ''HashMap'') opts0 enc"
    unfolding writeObject_jl_def c d p t h if_True by (rule refl)
  have pb: "writeObject_pb (JObject (set_prop ps ''interface'' x)) cm (Some ''HashMap'') opts0 sess
              = writeObject_pb (JObject ps) cm (Some ''HashMap'') opts0 sess"
    unfolding writeObject_pb_def c d p t h if_True by (rule refl)
  have pbj: "writeObject_pbj P (JObject (set_prop ps ''interface'' x)) cm (Some ''HashMap'') opts0
               sess
              = writeObject_pbj P (JObject ps) cm (Some ''HashMap'') opts0 sess"
    unfolding writeObject_pbj_def c d p t h if_True by (rule refl)
  show ?thesis
    using i q jl pb pbj by simp
qed

theorem mapped_protobuf_keeps_interface:
  "typedPayload_pbm examplePlatform ''HashMap''
     (JObject [(''path'', JStr ''p''), (''interface'', JStr ''i'')])
     = Inr (JObject [(''value'', JObject [(''path'', JStr ''p''), (''interface'', JStr ''i'')])])
   \<and> queuedBy (writeObject_pbm examplePlatform
                  (JObject [(''path'', JStr ''p''), (''interface'', JStr ''i'')]) JNull
                  (Some ''HashMap'') typedOptions (newSession noCaches))
       = Some (15 # string_bytes ''path;interface;'')"
  by (simp add: typedPayload_pbm_def keepStringsAndNumbers_def entries_def assign_def
        set_prop_def writeObject_pbm_def typedOptions_def type_given_def mapped_def mapType_def
        inheritedMember_def findMsg_def findType_def newSession_def noCaches_def exampleRoot_def
        asType_def andThen_def exampleType_def queue_def queuedBy_def Writer_bytes_def
        Writer_create_def get_prop_def string_bytes_def)

subsection \<open>Reading with a resolved message type\<close>




end
